theory Spec2Isabelle
  imports Main "HOL-Library.AList"
begin

section \<open>Python scalars\<close>

text \<open>
  The two converters move scalars between an SQLite database, a spreadsheet and an SQL
  script. A scalar is \<open>None\<close>, a \<open>bool\<close>, an \<open>int\<close> (unbounded) or a \<open>str\<close>; float,
  date and byte values are not modelled. The code looks at a scalar in four ways:
  its truth value (\<open>while cell.value\<close>, \<open>any(...)\<close>, \<open>if metadata["pk"]\<close>), the test
  \<open>is None\<close>, \<open>str(...)\<close> (also what an f-string field prints) and \<open>==\<close>. A character of
  a \<open>str\<close> is a \<open>char\<close> here; the code only counts, copies and compares characters.
\<close>

datatype pyval = PNone | PBool bool | PInt int | PStr string

fun truthy :: "pyval \<Rightarrow> bool" where
  "truthy PNone = False"
| "truthy (PBool b) = b"
| "truthy (PInt i) = (i \<noteq> 0)"
| "truthy (PStr s) = (s \<noteq> [])"

fun str_nat :: "nat \<Rightarrow> string" where
  "str_nat n =
     (if n < 10 then [''0123456789'' ! n]
      else str_nat (n div 10) @ [''0123456789'' ! (n mod 10)])"

declare str_nat.simps [simp del]

definition str_int :: "int \<Rightarrow> string" where
  "str_int i = (if i < 0 then CHR ''-'' # str_nat (nat (- i)) else str_nat (nat i))"

fun py_str :: "pyval \<Rightarrow> string" where
  "py_str PNone = ''None''"
| "py_str (PBool b) = (if b then ''True'' else ''False'')"
| "py_str (PInt i) = str_int i"
| "py_str (PStr s) = s"

text \<open>Python's \<open>==\<close>: \<open>bool\<close> is a subclass of \<open>int\<close>, so \<open>True == 1\<close>.\<close>

fun py_eq :: "pyval \<Rightarrow> pyval \<Rightarrow> bool" where
  "py_eq PNone y = (y = PNone)"
| "py_eq (PStr s) y = (y = PStr s)"
| "py_eq (PInt i) (PInt j) = (i = j)"
| "py_eq (PInt i) (PBool c) = (i = (if c then 1 else 0))"
| "py_eq (PBool b) (PInt j) = ((if b then 1 else 0) = j)"
| "py_eq (PBool b) (PBool c) = (b = c)"
| "py_eq (PInt i) y = False"
| "py_eq (PBool b) y = False"

section \<open>The spreadsheet document\<close>

text \<open>
  An openpyxl worksheet is its title and the dictionary \<open>_cells\<close> from (row, column),
  both counted from 1, to cells; a cell has a value and an optional comment, whose text
  is a string. \<open>sheet.cell(row, column)\<close> returns the cell stored there and, when there is
  none, stores and returns a new empty one. \<open>max_row\<close> and \<open>max_column\<close> are the largest
  indices among the stored cells (1 for a sheet with none), and \<open>sheet.rows\<close> lists the
  rows 1 to \<open>max_row\<close>, each over the columns 1 to \<open>max_column\<close>.
\<close>

record cell =
  cell_value :: pyval
  comment :: "string option"

definition empty_cell :: cell where
  "empty_cell = \<lparr>cell_value = PNone, comment = None\<rparr>"

record worksheet =
  title :: string
  cells :: "((nat \<times> nat) \<times> cell) list"

record workbook =
  worksheets :: "worksheet list"
  description :: "string option"
  creator :: "string option"

definition sheet_cell :: "worksheet \<Rightarrow> nat \<Rightarrow> nat \<Rightarrow> cell \<times> worksheet" where
  "sheet_cell ws r c =
     (case map_of (cells ws) (r, c) of
        Some x \<Rightarrow> (x, ws)
      | None \<Rightarrow> (empty_cell, ws\<lparr>cells := cells ws @ [((r, c), empty_cell)]\<rparr>))"

definition max_row :: "worksheet \<Rightarrow> nat" where
  "max_row ws = fold max (map (\<lambda>kv. fst (fst kv)) (cells ws)) 1"

definition max_column :: "worksheet \<Rightarrow> nat" where
  "max_column ws = fold max (map (\<lambda>kv. snd (fst kv)) (cells ws)) 1"

definition sheet_rows :: "worksheet \<Rightarrow> cell list list" where
  "sheet_rows ws =
     map (\<lambda>r. map (\<lambda>c. fst (sheet_cell ws r c)) [1..<Suc (max_column ws)])
       [1..<Suc (max_row ws)]"

section \<open>The reverse mapper: xlsx_to_sql.py\<close>

datatype error =
  XLSXParseError string
| JSONDecodeError
| KeyError string
| TypeError

text \<open>
  What \<open>json.loads\<close> returns for a header comment: a dictionary (here with scalar
  values), or some other JSON value, which cannot be subscripted with a key.
  \<open>json.loads\<close> itself belongs to the Python library; the mapper takes it as the
  argument \<open>loads\<close>, where \<open>None\<close> stands for the \<open>JSONDecodeError\<close> it raises.
\<close>

datatype pyobj = Dict "(string \<times> pyval) list" | NonDict

definition COMMENT_PREFIX :: string where
  "COMMENT_PREFIX = ''AUTOGENERATED, DO NOT EDIT!\<newline>''"

definition DEFAULT_METADATA :: pyobj where
  "DEFAULT_METADATA =
     Dict [(''type'', PStr ''VARCHAR(255)''), (''not_null'', PBool False), (''pk'', PInt 0)]"

fun subscript :: "pyobj \<Rightarrow> string \<Rightarrow> error + pyval" where
  "subscript (Dict kvs) k = (case map_of kvs k of None \<Rightarrow> Inl (KeyError k) | Some v \<Rightarrow> Inr v)"
| "subscript NonDict k = Inl TypeError"

text \<open>Lines 77 to 90: the metadata of one header cell.\<close>

definition field_metadata_of :: "(string \<Rightarrow> pyobj option) \<Rightarrow> cell \<Rightarrow> error + pyobj" where
  "field_metadata_of loads c =
     (case comment c of
        Some comment_text \<Rightarrow>
          (let prefix = take (length COMMENT_PREFIX) comment_text;
               suffix = drop (length COMMENT_PREFIX) comment_text
           in if prefix \<noteq> COMMENT_PREFIX
              then Inl (XLSXParseError
                     (''Comment verification failed: '' @ [CHR 0x27] @ comment_text @ [CHR 0x27]))
              else (case loads suffix of
                      None \<Rightarrow> Inl JSONDecodeError
                    | Some metadata \<Rightarrow> Inr metadata))
      | None \<Rightarrow> Inr DEFAULT_METADATA)"

text \<open>
  Lines 67 to 95: the header loop. It reads row 1 from column 1 on and stops at the
  first cell whose value is false (\<open>None\<close>, the empty string, 0, \<open>False\<close>). The probe of
  that cell stores an empty cell in the sheet, which is why the sheet is returned.
\<close>

lemma le_fold_max: "x \<in> set xs \<Longrightarrow> (x::nat) \<le> fold max xs a"
proof (induction xs arbitrary: a)
  case Nil
  then show ?case by simp
next
  case (Cons y ys)
  have mono: "\<And>b. b \<le> fold max ys b"
  proof -
    fix b show "b \<le> fold max ys b"
      by (induction ys arbitrary: b) (auto intro: order_trans [OF max.cobounded2])
  qed
  show ?case
  proof (cases "x = y")
    case True
    then show ?thesis using mono [of "max y a"] by simp
  next
    case False
    with Cons show ?thesis by simp
  qed
qed

lemma sheet_cell_truthy:
  assumes "sheet_cell ws r c = (x, ws')" and "truthy (cell_value x)"
  shows "ws' = ws" and "c \<le> max_column ws"
proof -
  from assms have m: "map_of (cells ws) (r, c) = Some x"
    by (auto simp: sheet_cell_def empty_cell_def split: option.splits)
  with assms show "ws' = ws"
    by (simp add: sheet_cell_def)
  from m have "((r, c), x) \<in> set (cells ws)"
    by (rule map_of_SomeD)
  then have "snd (fst ((r, c), x)) \<in> set (map (\<lambda>kv. snd (fst kv)) (cells ws))"
    by (intro image_eqI [where x = "((r, c), x)"] | simp)+
  then show "c \<le> max_column ws"
    unfolding max_column_def by (simp add: le_fold_max del: set_map)
qed

lemma sheet_cell_probe:
  "(x, ws') = sheet_cell ws r c \<Longrightarrow> truthy (cell_value x) \<Longrightarrow> ws' = ws \<and> c \<le> max_column ws"
  using sheet_cell_truthy [of ws r c x ws'] by simp

function detect_fields ::
  "(string \<Rightarrow> pyobj option) \<Rightarrow> worksheet \<Rightarrow> nat \<Rightarrow> pyval list \<Rightarrow> pyobj list
     \<Rightarrow> error + (pyval list \<times> pyobj list \<times> worksheet)" where
  "detect_fields loads sheet column field_names field_metadata =
     (case sheet_cell sheet 1 column of
        (c, sheet') \<Rightarrow>
          if truthy (cell_value c) then
            (case field_metadata_of loads c of
               Inl e \<Rightarrow> Inl e
             | Inr metadata \<Rightarrow>
                 detect_fields loads sheet' (column + 1) (field_names @ [cell_value c])
                   (field_metadata @ [metadata]))
          else Inr (field_names, field_metadata, sheet'))"
  by pat_completeness auto
termination
  by (relation "measure (\<lambda>(loads, sheet, column, field_names, field_metadata).
                  Suc (max_column sheet) - column)")
    (auto dest!: sheet_cell_probe)

declare detect_fields.simps [simp del]

text \<open>
  Lines 100 to 119: one column line per field. \<open>field_metadata[column]\<close> is the entry
  paired with the field: the header loop appends to both lists together. The list
  \<open>fields\<close> of the source is \<open>field_names\<close> here.
\<close>

fun add_fields ::
  "string \<Rightarrow> (pyval \<times> pyobj) list \<Rightarrow> pyval \<Rightarrow> string \<Rightarrow> error + (pyval \<times> string)" where
  \<open>add_fields table_name [] primary_key_field sql_script = Inr (primary_key_field, sql_script)\<close>
| \<open>add_fields table_name ((field_name, metadata) # rest) primary_key_field sql_script =
     (case subscript metadata ''pk'' of
        Inl e \<Rightarrow> Inl e
      | Inr pk \<Rightarrow>
          if truthy pk \<and> primary_key_field \<noteq> PNone
          then Inl (XLSXParseError
                 (''Table '' @ table_name @ '': multiple primary key fields detected!''))
          else
            (let primary_key_field = (if truthy pk then field_name else primary_key_field);
                 sql_script =
                   (if py_eq primary_key_field field_name
                    then sql_script @ [CHR 0x09] @ py_str field_name
                    else sql_script @ [CHR 0x09] @ ''"'' @ py_str field_name @ ''"'')
             in case subscript metadata ''type'' of
                  Inl e \<Rightarrow> Inl e
                | Inr ty \<Rightarrow>
                    (let sql_script = sql_script @ '' '' @ py_str ty
                     in case subscript metadata ''not_null'' of
                          Inl e \<Rightarrow> Inl e
                        | Inr not_null \<Rightarrow>
                            (let sql_script =
                                   (if truthy not_null then sql_script @ '' NOT NULL''
                                    else sql_script)
                             in add_fields table_name rest primary_key_field
                                  (sql_script @ '',\<newline>'')))))\<close>

text \<open>
  Lines 138 to 152: the values of one record and their text. Inside the loop over
  \<open>sheet.rows\<close> every cell of the row is stored already, so \<open>sheet.cell\<close> only reads.
\<close>

definition row_values :: "worksheet \<Rightarrow> pyval list \<Rightarrow> nat \<Rightarrow> pyval list" where
  "row_values sheet field_names row_index =
     map (\<lambda>column_index.
            let v = cell_value (fst (sheet_cell sheet (row_index + 1) (column_index + 1)));
                v = (if v = PNone then PStr [] else v)
            in PStr (py_str v))
       [0..<length field_names]"

fun add_values :: "nat \<Rightarrow> pyval list \<Rightarrow> string \<Rightarrow> string" where
  "add_values column [] sql_script = sql_script"
| "add_values column (v # vs) sql_script =
     (let sql_script = (if column > 0 then sql_script @ '','' else sql_script);
          sql_script =
            (case v of
               PStr s \<Rightarrow> sql_script @ [CHR 0x27] @ s @ [CHR 0x27]
             | _ \<Rightarrow> sql_script @ py_str v)
      in add_values (Suc column) vs sql_script)"

text \<open>Lines 131 to 154: the loop over \<open>enumerate(sheet.rows)\<close>.\<close>

fun add_records ::
  "worksheet \<Rightarrow> string \<Rightarrow> pyval list \<Rightarrow> nat \<Rightarrow> cell list list \<Rightarrow> string \<Rightarrow> string" where
  \<open>add_records sheet table_name field_names row_index [] sql_script = sql_script\<close>
| \<open>add_records sheet table_name field_names row_index (row_obj # rest) sql_script =
     (if row_index = 0 then add_records sheet table_name field_names (Suc row_index) rest sql_script
      else if \<not> list_ex (\<lambda>c. truthy (cell_value c)) row_obj
      then add_records sheet table_name field_names (Suc row_index) rest sql_script
      else
        (let vs = row_values sheet field_names row_index;
             sql_script = sql_script @ ''INSERT INTO "'' @ table_name @ ''" VALUES('';
             sql_script = add_values 0 vs sql_script;
             sql_script = sql_script @ '');\<newline>''
         in add_records sheet table_name field_names (Suc row_index) rest sql_script))\<close>

text \<open>Lines 63 to 154: one worksheet.\<close>

definition convert_sheet ::
  "(string \<Rightarrow> pyobj option) \<Rightarrow> worksheet \<Rightarrow> string \<Rightarrow> error + string" where
  \<open>convert_sheet loads sheet sql_script =
     (let table_name = title sheet
      in case detect_fields loads sheet 1 [] [] of
           Inl e \<Rightarrow> Inl e
         | Inr (field_names, field_metadata, sheet) \<Rightarrow>
             (let sql_script = sql_script @ ''CREATE TABLE "'' @ table_name @ ''" (\<newline>''
              in case add_fields table_name (zip field_names field_metadata) PNone sql_script of
                   Inl e \<Rightarrow> Inl e
                 | Inr (primary_key_field, sql_script) \<Rightarrow>
                     if primary_key_field \<noteq> PNone then
                       (let sql_script =
                              sql_script @ ''  PRIMARY KEY ('' @ py_str primary_key_field
                                @ '')\<newline>'';
                            sql_script = sql_script @ '');\<newline>''
                        in Inr (add_records sheet table_name field_names 0 (sheet_rows sheet)
                                  sql_script))
                     else Inl (XLSXParseError
                            (''Table '' @ table_name @ '': no primary key field detected!''))))\<close>

fun convert_sheets ::
  "(string \<Rightarrow> pyobj option) \<Rightarrow> worksheet list \<Rightarrow> string \<Rightarrow> error + string" where
  "convert_sheets loads [] sql_script = Inr sql_script"
| "convert_sheets loads (sheet # rest) sql_script =
     (case convert_sheet loads sheet sql_script of
        Inl e \<Rightarrow> Inl e
      | Inr sql_script \<Rightarrow> convert_sheets loads rest sql_script)"

text \<open>
  Lines 57 to 157: the script that is written to the output file. An exception leaves
  the file unwritten.
\<close>

definition xlsx_to_sql :: "(string \<Rightarrow> pyobj option) \<Rightarrow> workbook \<Rightarrow> error + string" where
  "xlsx_to_sql loads wb =
     (let sql_script = [];
          sql_script = sql_script @ ''BEGIN TRANSACTION;\<newline>''
      in case convert_sheets loads (worksheets wb) sql_script of
           Inl e \<Rightarrow> Inl e
         | Inr sql_script \<Rightarrow> Inr (sql_script @ ''COMMIT;\<newline>''))"


section \<open>The forward mapper: sql_to_xlsx.py\<close>

text \<open>
  The mapper runs the script in a fresh SQLite database and then reads that database
  with three statements. The database is given here by what it holds after the
  script: the rows of the catalog \<open>sqlite_master\<close> (their columns \<open>type\<close> and \<open>name\<close>), in
  the order in which the engine lists them, the rows that \<open>PRAGMA table_info('<name>')\<close>
  returns (cid, name, type, notnull, dflt_value, pk) and the rows that
  \<open>SELECT * FROM '<name>'\<close> returns, both as functions of the name put into the
  statement.
\<close>

record master_row =
  row_type :: string
  row_name :: string

record table_info_row =
  col_cid :: int
  col_name :: string
  col_type :: string
  col_notnull :: int
  col_dflt_value :: pyval
  col_pk :: int

record database =
  sqlite_master :: "master_row list"
  table_info :: "string \<Rightarrow> table_info_row list"
  select_all :: "string \<Rightarrow> pyval list list"

definition AUTOGEN_PREFIX :: string where
  "AUTOGEN_PREFIX = ''AUTOGENERATED, DO NOT EDIT!\<newline>''"

text \<open>Line 58: \<open>SELECT name FROM sqlite_master WHERE type='table'\<close>.\<close>

definition select_tables :: "database \<Rightarrow> string list" where
  "select_tables db = map row_name (filter (\<lambda>r. row_type r = ''table'') (sqlite_master db))"

text \<open>
  \<open>cell = worksheet.cell(row, column)\<close> followed by assignments to the cell's
  attributes: the cell is looked up (and stored when new), changed, and the sheet
  holds the changed cell.
\<close>

definition set_cell :: "worksheet \<Rightarrow> nat \<Rightarrow> nat \<Rightarrow> (cell \<Rightarrow> cell) \<Rightarrow> worksheet" where
  "set_cell ws r c f =
     (case sheet_cell ws r c of
        (x, ws') \<Rightarrow> ws'\<lparr>cells := AList.update (r, c) (f x) (cells ws')\<rparr>)"

text \<open>
  Lines 82 to 94: the header line. \<open>json.dumps\<close> is the library's and is the
  argument \<open>dumps\<close>. The number format of the cell is not modelled: the reverse mapper
  does not read it.
\<close>

fun write_header ::
  "(pyobj \<Rightarrow> string) \<Rightarrow> nat \<Rightarrow> table_info_row list \<Rightarrow> worksheet \<Rightarrow> worksheet" where
  "write_header dumps i [] worksheet = worksheet"
| "write_header dumps i (field # rest) worksheet =
     (let metadata = Dict [(''type'', PStr (col_type field)),
                           (''not_null'', PBool (col_notnull field \<noteq> 0)),
                           (''pk'', PInt (col_pk field))];
          metadata_string = AUTOGEN_PREFIX @ dumps metadata;
          worksheet = set_cell worksheet 1 (i + 1)
                        (\<lambda>c. c\<lparr>cell_value := PStr (col_name field),
                                comment := Some metadata_string\<rparr>)
      in write_header dumps (Suc i) rest worksheet)"

text \<open>Lines 96 to 100: the records.\<close>

fun write_row :: "nat \<Rightarrow> nat \<Rightarrow> pyval list \<Rightarrow> worksheet \<Rightarrow> worksheet" where
  "write_row i j [] worksheet = worksheet"
| "write_row i j (col # rest) worksheet =
     write_row i (Suc j) rest (set_cell worksheet (i + 2) (j + 1) (\<lambda>c. c\<lparr>cell_value := col\<rparr>))"

fun write_rows :: "nat \<Rightarrow> pyval list list \<Rightarrow> worksheet \<Rightarrow> worksheet" where
  "write_rows i [] worksheet = worksheet"
| "write_rows i (row # rest) worksheet = write_rows (Suc i) rest (write_row i 0 row worksheet)"

text \<open>
  Lines 69 to 102: one worksheet per table. \<open>workbook.create_sheet\<close> is openpyxl's: it
  adds an empty sheet at the end and gives it a title that depends on the titles in
  use and on the requested one. That choice is the argument \<open>create_sheet_title\<close>.
  \<open>table_names[sheet_name] = table_name\<close> updates a dictionary, kept as an association
  list in insertion order.
\<close>

fun add_tables ::
  "(string list \<Rightarrow> string \<Rightarrow> string) \<Rightarrow> (pyobj \<Rightarrow> string) \<Rightarrow> database \<Rightarrow> string list
     \<Rightarrow> worksheet list \<times> (string \<times> string) list \<Rightarrow> worksheet list \<times> (string \<times> string) list" where
  "add_tables create_sheet_title dumps db [] (sheets, table_names) = (sheets, table_names)"
| "add_tables create_sheet_title dumps db (table_name # rest) (sheets, table_names) =
     (let sheet_target_name = take 29 table_name;
          worksheet = \<lparr>title = create_sheet_title (map title sheets) sheet_target_name,
                       cells = []\<rparr>;
          sheet_name = title worksheet;
          table_names = AList.update sheet_name table_name table_names;
          worksheet = write_header dumps 0 (table_info db table_name) worksheet;
          worksheet = write_rows 0 (select_all db table_name) worksheet
      in add_tables create_sheet_title dumps db rest (sheets @ [worksheet], table_names))"

text \<open>
  Lines 58 to 111: the workbook that is saved. \<open>dumps_names\<close> stands for \<open>json.dumps\<close>
  of \<open>{"table_names": table_names}\<close>.
\<close>

definition sql_to_xlsx ::
  "(string list \<Rightarrow> string \<Rightarrow> string) \<Rightarrow> (pyobj \<Rightarrow> string) \<Rightarrow> ((string \<times> string) list \<Rightarrow> string)
     \<Rightarrow> database \<Rightarrow> workbook" where
  "sql_to_xlsx create_sheet_title dumps dumps_names db =
     (let tables = select_tables db
      in case add_tables create_sheet_title dumps db tables ([], []) of
           (sheets, table_names) \<Rightarrow>
             \<lparr>worksheets = sheets,
              description = Some (AUTOGEN_PREFIX @ dumps_names table_names),
              creator = Some ''IceTea''\<rparr>)"


text \<open>Line 104: the dictionary \<open>table_names\<close> when all tables are written.\<close>

definition forward_names ::
  "(string list \<Rightarrow> string \<Rightarrow> string) \<Rightarrow> (pyobj \<Rightarrow> string) \<Rightarrow> database \<Rightarrow> (string \<times> string) list" where
  "forward_names create_sheet_title dumps db =
     snd (add_tables create_sheet_title dumps db (select_tables db) ([], []))"

section \<open>The shape of the emitted script\<close>

text \<open>
  The functions of this section are not in the source. They describe what the loops
  above append: which descriptors are complete, which of them flag a primary key, the
  text of a column line, of the \<open>CREATE TABLE\<close> block and of an \<open>INSERT\<close> statement,
  and the rows of a sheet that get a statement. The lemmas below prove that the loops
  append exactly these texts.
\<close>

fun complete :: "pyobj \<Rightarrow> bool" where
  "complete (Dict kvs) =
     (map_of kvs ''pk'' \<noteq> None \<and> map_of kvs ''type'' \<noteq> None \<and> map_of kvs ''not_null'' \<noteq> None)"
| "complete NonDict = False"

fun pk_flag :: "pyobj \<Rightarrow> bool" where
  "pk_flag (Dict kvs) = (case map_of kvs ''pk'' of None \<Rightarrow> False | Some v \<Rightarrow> truthy v)"
| "pk_flag NonDict = False"

definition render_value :: "pyval \<Rightarrow> string" where
  "render_value v = (case v of PStr s \<Rightarrow> [CHR 0x27] @ s @ [CHR 0x27] | _ \<Rightarrow> py_str v)"

fun comma_separated :: "string list \<Rightarrow> string" where
  "comma_separated [] = []"
| "comma_separated [x] = x"
| "comma_separated (x # y # ys) = x @ '','' @ comma_separated (y # ys)"

definition insert_statement :: "string \<Rightarrow> pyval list \<Rightarrow> string" where
  \<open>insert_statement table_name vs =
     ''INSERT INTO "'' @ table_name @ ''" VALUES('' @ comma_separated (map render_value vs)
       @ '');\<newline>''\<close>

definition kept :: "cell list \<Rightarrow> bool" where
  "kept row_obj = list_ex (\<lambda>c. truthy (cell_value c)) row_obj"

definition header_cell :: "worksheet \<Rightarrow> nat \<Rightarrow> cell" where
  "header_cell sheet column = fst (sheet_cell sheet 1 column)"

definition get_item :: "pyobj \<Rightarrow> string \<Rightarrow> pyval" where
  "get_item metadata k = (case subscript metadata k of Inr v \<Rightarrow> v | Inl e \<Rightarrow> PNone)"

definition column_line :: "pyval \<Rightarrow> pyval \<Rightarrow> pyobj \<Rightarrow> string" where
  \<open>column_line primary_key_field field_name metadata =
     [CHR 0x09]
     @ (if py_eq primary_key_field field_name then py_str field_name
        else ''"'' @ py_str field_name @ ''"'')
     @ '' '' @ py_str (get_item metadata ''type'')
     @ (if truthy (get_item metadata ''not_null'') then '' NOT NULL'' else [])
     @ '',\<newline>''\<close>

fun column_lines :: "(pyval \<times> pyobj) list \<Rightarrow> pyval \<Rightarrow> string list" where
  "column_lines [] primary_key_field = []"
| "column_lines ((field_name, metadata) # rest) primary_key_field =
     (let pk = (if pk_flag metadata then field_name else primary_key_field)
      in column_line pk field_name metadata # column_lines rest pk)"

fun final_pk :: "(pyval \<times> pyobj) list \<Rightarrow> pyval \<Rightarrow> pyval" where
  "final_pk [] primary_key_field = primary_key_field"
| "final_pk ((field_name, metadata) # rest) primary_key_field =
     final_pk rest (if pk_flag metadata then field_name else primary_key_field)"

definition multiple_pk_error :: "string \<Rightarrow> error" where
  "multiple_pk_error table_name =
     XLSXParseError (''Table '' @ table_name @ '': multiple primary key fields detected!'')"

definition no_pk_error :: "string \<Rightarrow> error" where
  "no_pk_error table_name =
     XLSXParseError (''Table '' @ table_name @ '': no primary key field detected!'')"

definition value_at :: "worksheet \<Rightarrow> nat \<Rightarrow> nat \<Rightarrow> pyval" where
  "value_at sheet r c = cell_value (fst (sheet_cell sheet r c))"

definition cell_text :: "pyval \<Rightarrow> string" where
  "cell_text v = (if v = PNone then [] else py_str v)"

definition record_rows :: "worksheet \<Rightarrow> nat list" where
  "record_rows sheet =
     filter (\<lambda>row_index. list_ex (\<lambda>c. truthy (value_at sheet (row_index + 1) c)) [1..<Suc (max_column sheet)])
       [1..<max_row sheet]"

definition create_table :: "string \<Rightarrow> pyval list \<Rightarrow> pyobj list \<Rightarrow> string" where
  \<open>create_table table_name field_names field_metadata =
     ''CREATE TABLE "'' @ table_name @ ''" (\<newline>''
     @ concat (column_lines (zip field_names field_metadata) PNone)
     @ ''  PRIMARY KEY ('' @ py_str (final_pk (zip field_names field_metadata) PNone) @ '')\<newline>''
     @ '');\<newline>''\<close>

text \<open>
  The same for the forward mapper and for the two mappers in a row: the cell that a
  sheet shows at a position, the descriptor of a column, the sheet written for one
  table, the titles that the sheets get one after the other, the dictionary that
  links them to the table names, and the script that the round trip of a table is
  expected to give: one column line per column of the table, its primary key, and one
  \<open>INSERT\<close> per row with the text of each value between quotes. A table is ready for
  the round trip when it has exactly one primary-key column, its column names are
  distinct and not empty, each descriptor survives \<open>dumps\<close> followed by \<open>loads\<close>, and
  each row is as wide as the header.
\<close>

definition look :: "worksheet \<Rightarrow> nat \<Rightarrow> nat \<Rightarrow> cell" where
  "look ws r c = fst (sheet_cell ws r c)"


definition sheet_of :: "(pyobj \<Rightarrow> string) \<Rightarrow> database \<Rightarrow> string \<Rightarrow> string \<Rightarrow> worksheet" where
  "sheet_of dumps db sheet_name table_name =
     write_rows 0 (select_all db table_name)
       (write_header dumps 0 (table_info db table_name) \<lparr>title = sheet_name, cells = []\<rparr>)"

fun assigned_titles :: "(string list \<Rightarrow> string \<Rightarrow> string) \<Rightarrow> string list \<Rightarrow> string list \<Rightarrow> string list" where
  "assigned_titles create_sheet_title used [] = []"
| "assigned_titles create_sheet_title used (table_name # rest) =
     (let sheet_name = create_sheet_title used (take 29 table_name)
      in sheet_name # assigned_titles create_sheet_title (used @ [sheet_name]) rest)"

fun link_names :: "(string \<times> string) list \<Rightarrow> (string \<times> string) list \<Rightarrow> (string \<times> string) list" where
  "link_names [] table_names = table_names"
| "link_names ((sheet_name, table_name) # rest) table_names =
     link_names rest (AList.update sheet_name table_name table_names)"

definition internal_table :: "string \<Rightarrow> bool" where
  "internal_table table_name = (take 7 table_name = ''sqlite_'')"





text \<open>
  Two sheets show the same when they have the same title and show the same cell, value
  and comment, at every position where one of them stores a cell; at any other position
  both show the empty cell. Two workbooks show the same when their sheets do, one by
  one. This is what the reverse mapper reads of a workbook.
\<close>

definition same_sheet :: "worksheet \<Rightarrow> worksheet \<Rightarrow> bool" where
  "same_sheet a b \<longleftrightarrow>
     title a = title b
     \<and> list_all (\<lambda>k. look a (fst k) (snd k) = look b (fst k) (snd k))
         (map fst (cells a) @ map fst (cells b))"





section \<open>Sample inputs\<close>

text \<open>
  The answers of \<open>json.loads\<close> on the four texts that the sample comments carry; any
  other text, such as \<open>{\<close>, is answered with the decode error.
\<close>

definition json_loads_sample :: "string \<Rightarrow> pyobj option" where
  \<open>json_loads_sample s =
     (if s = ''{"type": "INTEGER", "not_null": false, "pk": 1}''
      then Some (Dict [(''type'', PStr ''INTEGER''), (''not_null'', PBool False), (''pk'', PInt 1)])
      else if s = ''{"type": "TEXT", "not_null": true, "pk": 0}''
      then Some (Dict [(''type'', PStr ''TEXT''), (''not_null'', PBool True), (''pk'', PInt 0)])
      else if s = ''{"type": "TEXT", "not_null": false, "pk": 0}''
      then Some (Dict [(''type'', PStr ''TEXT''), (''not_null'', PBool False), (''pk'', PInt 0)])
      else if s = ''{}'' then Some (Dict [])
      else None)\<close>

definition pk_comment :: string where
  \<open>pk_comment = COMMENT_PREFIX @ ''{"type": "INTEGER", "not_null": false, "pk": 1}''\<close>

definition text_comment :: string where
  \<open>text_comment = COMMENT_PREFIX @ ''{"type": "TEXT", "not_null": true, "pk": 0}''\<close>

definition sheet_people :: worksheet where
  "sheet_people = \<lparr>title = ''people'', cells =
     [((1, 1), \<lparr>cell_value = PStr ''id'', comment = Some pk_comment\<rparr>),
      ((1, 2), \<lparr>cell_value = PStr ''name'', comment = Some text_comment\<rparr>),
      ((2, 1), \<lparr>cell_value = PInt 7, comment = None\<rparr>),
      ((2, 2), \<lparr>cell_value = PStr ''Ann'', comment = None\<rparr>),
      ((2, 3), \<lparr>cell_value = PStr ''beyond'', comment = None\<rparr>),
      ((4, 1), \<lparr>cell_value = PInt 8, comment = None\<rparr>)]\<rparr>"

definition sheet_no_pk :: worksheet where
  "sheet_no_pk = \<lparr>title = ''notes'', cells =
     [((1, 1), \<lparr>cell_value = PStr ''body'', comment = Some text_comment\<rparr>),
      ((1, 2), \<lparr>cell_value = PStr ''added'', comment = None\<rparr>)]\<rparr>"

definition sheet_two_pk :: worksheet where
  "sheet_two_pk = \<lparr>title = ''pairs'', cells =
     [((1, 1), \<lparr>cell_value = PStr ''a'', comment = Some pk_comment\<rparr>),
      ((1, 2), \<lparr>cell_value = PStr ''b'', comment = Some pk_comment\<rparr>)]\<rparr>"

definition sheet_zero :: worksheet where
  "sheet_zero = \<lparr>title = ''t'', cells =
     [((1, 1), \<lparr>cell_value = PStr ''id'', comment = Some pk_comment\<rparr>),
      ((2, 1), \<lparr>cell_value = PInt 1, comment = None\<rparr>),
      ((3, 1), \<lparr>cell_value = PInt 0, comment = None\<rparr>),
      ((4, 1), \<lparr>cell_value = PInt 2, comment = None\<rparr>)]\<rparr>"

definition workbook_people :: workbook where
  "workbook_people = \<lparr>worksheets = [sheet_people], description = None, creator = None\<rparr>"

definition script_people :: string where
  \<open>script_people =
     ''BEGIN TRANSACTION;\<newline>CREATE TABLE "people" (\<newline>''
     @ [CHR 0x09] @ ''id INTEGER,\<newline>''
     @ [CHR 0x09] @ ''"name" TEXT NOT NULL,\<newline>''
     @ ''  PRIMARY KEY (id)\<newline>);\<newline>''
     @ ''INSERT INTO "people" VALUES('' @ [CHR 0x27] @ ''7'' @ [CHR 0x27] @ '',''
         @ [CHR 0x27] @ ''Ann'' @ [CHR 0x27] @ '');\<newline>''
     @ ''INSERT INTO "people" VALUES('' @ [CHR 0x27] @ ''8'' @ [CHR 0x27] @ '',''
         @ [CHR 0x27] @ [CHR 0x27] @ '');\<newline>''\<close>

text \<open>
  For the forward mapper: the title openpyxl gives a new sheet when at most one sheet
  has the requested title already, \<open>json.dumps\<close> on dictionaries whose strings need no
  escape, and four databases.
\<close>

definition title_sample :: "string list \<Rightarrow> string \<Rightarrow> string" where
  "title_sample used requested = (if requested \<in> set used then requested @ ''1'' else requested)"

fun json_scalar :: "pyval \<Rightarrow> string" where
  \<open>json_scalar PNone = ''null''\<close>
| \<open>json_scalar (PBool b) = (if b then ''true'' else ''false'')\<close>
| \<open>json_scalar (PInt i) = str_int i\<close>
| \<open>json_scalar (PStr s) = ''"'' @ s @ ''"''\<close>

fun json_members :: "(string \<times> string) list \<Rightarrow> string" where
  \<open>json_members [] = []\<close>
| \<open>json_members [(k, v)] = ''"'' @ k @ ''": '' @ v\<close>
| \<open>json_members ((k, v) # kv # rest) = ''"'' @ k @ ''": '' @ v @ '', '' @ json_members (kv # rest)\<close>

fun json_dumps_sample :: "pyobj \<Rightarrow> string" where
  "json_dumps_sample (Dict kvs) = ''{'' @ json_members (map (\<lambda>(k, v). (k, json_scalar v)) kvs) @ ''}''"
| "json_dumps_sample NonDict = ''null''"

definition json_dumps_names_sample :: "(string \<times> string) list \<Rightarrow> string" where
  \<open>json_dumps_names_sample table_names =
     ''{"table_names": {''
     @ json_members (map (\<lambda>(k, v). (k, json_scalar (PStr v))) table_names) @ ''}}''\<close>



definition db_long_name :: database where
  "db_long_name =
     \<lparr>sqlite_master = [\<lparr>row_type = ''table'', row_name = ''customer_order_line_item_adjustment''\<rparr>],
      table_info = (\<lambda>n. if n = ''customer_order_line_item_adjustment''
         then [\<lparr>col_cid = 0, col_name = ''id'', col_type = ''INTEGER'', col_notnull = 0,
                 col_dflt_value = PNone, col_pk = 1\<rparr>]
         else []),
      select_all = (\<lambda>n. [])\<rparr>"

definition db_autoincrement :: database where
  "db_autoincrement =
     \<lparr>sqlite_master = [\<lparr>row_type = ''table'', row_name = ''t''\<rparr>,
                       \<lparr>row_type = ''table'', row_name = ''sqlite_sequence''\<rparr>,
                       \<lparr>row_type = ''index'', row_name = ''t_by_name''\<rparr>],
      table_info = (\<lambda>n. if n = ''t''
         then [\<lparr>col_cid = 0, col_name = ''id'', col_type = ''INTEGER'', col_notnull = 0,
                 col_dflt_value = PNone, col_pk = 1\<rparr>]
         else if n = ''sqlite_sequence''
         then [\<lparr>col_cid = 0, col_name = ''name'', col_type = [], col_notnull = 0,
                 col_dflt_value = PNone, col_pk = 0\<rparr>,
               \<lparr>col_cid = 1, col_name = ''seq'', col_type = [], col_notnull = 0,
                 col_dflt_value = PNone, col_pk = 0\<rparr>]
         else []),
      select_all = (\<lambda>n. if n = ''t'' then [[PInt 1]]
         else if n = ''sqlite_sequence'' then [[PStr ''t'', PInt 1]] else [])\<rparr>"





section \<open>What the loops append\<close>

lemma add_values_step:
  "add_values column (v # vs) sql_script =
     add_values (Suc column) vs
       (sql_script @ (if column > 0 then '','' else []) @ render_value v)"
  by (cases v) (simp_all add: render_value_def)

lemma comma_separated_Cons:
  "comma_separated (x # xs) = x @ (if xs = [] then [] else '','' @ comma_separated xs)"
  by (cases xs) simp_all

lemma add_values_append:
  "add_values column vs sql_script =
     sql_script @ (if vs = [] then []
                   else (if column > 0 then '','' else []) @ comma_separated (map render_value vs))"
proof (induction vs arbitrary: column sql_script)
  case Nil
  then show ?case by simp
next
  case (Cons v vs)
  show ?case
    unfolding add_values_step Cons.IH
    by (simp add: comma_separated_Cons)
qed

lemma add_values_0: "add_values 0 vs sql_script = sql_script @ comma_separated (map render_value vs)"
  by (simp add: add_values_append)

lemma add_records_append:
  "add_records sheet table_name field_names row_index row_objs sql_script =
     sql_script @ concat (map (\<lambda>(i, row_obj). insert_statement table_name (row_values sheet field_names i))
        (filter (\<lambda>(i, row_obj). i \<noteq> 0 \<and> kept row_obj) (zip [row_index..<row_index + length row_objs] row_objs)))"
proof (induction row_objs arbitrary: row_index sql_script)
  case Nil
  then show ?case by simp
next
  case (Cons row_obj rest)
  have up: "[row_index..<row_index + length (row_obj # rest)] =
              row_index # [Suc row_index..<Suc row_index + length rest]"
    by (subst upt_rec) simp
  show ?case
    unfolding up
    by (simp add: Cons.IH add_values_0 insert_statement_def kept_def Let_def del: upt_Suc)
qed

lemma detect_fields_unfold:
  "detect_fields loads sheet column field_names field_metadata =
     (if truthy (cell_value (header_cell sheet column)) then
        (case field_metadata_of loads (header_cell sheet column) of
           Inl e \<Rightarrow> Inl e
         | Inr metadata \<Rightarrow>
             detect_fields loads sheet (column + 1) (field_names @ [cell_value (header_cell sheet column)])
               (field_metadata @ [metadata]))
      else Inr (field_names, field_metadata, snd (sheet_cell sheet 1 column)))"
proof (cases "truthy (cell_value (header_cell sheet column))")
  case True
  obtain c sheet' where sc: "sheet_cell sheet 1 column = (c, sheet')"
    by (cases "sheet_cell sheet 1 column")
  with True have "sheet' = sheet" and "header_cell sheet column = c"
    using sheet_cell_truthy(1) [of sheet 1 column c sheet'] by (simp_all add: header_cell_def)
  with sc True show ?thesis
    by (subst detect_fields.simps) (simp split: sum.splits)
next
  case False
  obtain c sheet' where sc: "sheet_cell sheet 1 column = (c, sheet')"
    by (cases "sheet_cell sheet 1 column")
  with False have "\<not> truthy (cell_value c)"
    by (simp add: header_cell_def)
  with sc False show ?thesis
    by (subst detect_fields.simps) simp
qed

lemma detect_fields_Inr:
  assumes "detect_fields loads sheet column field_names field_metadata = Inr (fns, mds, sheet')"
  shows "\<exists>ms. fns = field_names @ map (\<lambda>j. cell_value (header_cell sheet (column + j))) [0..<length ms]
           \<and> mds = field_metadata @ ms
           \<and> (\<forall>j<length ms. truthy (cell_value (header_cell sheet (column + j)))
                    \<and> field_metadata_of loads (header_cell sheet (column + j)) = Inr (ms ! j))
           \<and> \<not> truthy (cell_value (header_cell sheet (column + length ms)))
           \<and> sheet' = snd (sheet_cell sheet 1 (column + length ms))"
  using assms
proof (induction loads sheet column field_names field_metadata rule: detect_fields.induct)
  case (1 loads sheet column field_names field_metadata)
  show ?case
  proof (cases "truthy (cell_value (header_cell sheet column))")
    case False
    with "1.prems" show ?thesis
      by (intro exI [of _ "[]"]) (simp add: detect_fields_unfold [of loads sheet column])
  next
    case True
    obtain c sh where sc: "sheet_cell sheet 1 column = (c, sh)"
      by (cases "sheet_cell sheet 1 column")
    with True have sh: "sh = sheet" and c: "c = header_cell sheet column"
      using sheet_cell_truthy(1) [of sheet 1 column c sh] by (simp_all add: header_cell_def)
    from True "1.prems" obtain metadata where
      md: "field_metadata_of loads (header_cell sheet column) = Inr metadata"
      and rec: "detect_fields loads sheet (column + 1) (field_names @ [cell_value (header_cell sheet column)])
               (field_metadata @ [metadata]) = Inr (fns, mds, sheet')"
      by (simp add: detect_fields_unfold [of loads sheet column] split: sum.splits)
    have sc': "(header_cell sheet column, sheet) = sheet_cell sheet 1 column"
      using sc sh c by simp
    from "1.IH" [OF sc' True md rec]
    obtain ms where k:
      "fns = (field_names @ [cell_value (header_cell sheet column)]) @ map (\<lambda>j. cell_value (header_cell sheet (column + 1 + j))) [0..<length ms]"
      "mds = (field_metadata @ [metadata]) @ ms"
      "\<forall>j<length ms. truthy (cell_value (header_cell sheet (column + 1 + j)))
                    \<and> field_metadata_of loads (header_cell sheet (column + 1 + j)) = Inr (ms ! j)"
      "\<not> truthy (cell_value (header_cell sheet (column + 1 + length ms)))"
      "sheet' = snd (sheet_cell sheet 1 (column + 1 + length ms))"
      by blast
    have shift: "\<And>f k. map f [0..<Suc k] = f 0 # map (\<lambda>j. f (Suc j)) [0..<k]"
      by (simp add: upt_conv_Cons map_Suc_upt [symmetric] del: upt_Suc)
    show ?thesis
    proof (intro exI [of _ "metadata # ms"] conjI allI impI)
      show "fns = field_names @ map (\<lambda>j. cell_value (header_cell sheet (column + j))) [0..<length (metadata # ms)]"
        using k(1) by (simp add: shift del: upt_Suc)
      show "mds = field_metadata @ metadata # ms"
        using k(2) by simp
      show "\<not> truthy (cell_value (header_cell sheet (column + length (metadata # ms))))"
        using k(4) by simp
      show "sheet' = snd (sheet_cell sheet 1 (column + length (metadata # ms)))"
        using k(5) by simp
    next
      fix j assume "j < length (metadata # ms)"
      then show "truthy (cell_value (header_cell sheet (column + j)))"
        using True k(3) by (cases j) auto
    next
      fix j assume "j < length (metadata # ms)"
      then show "field_metadata_of loads (header_cell sheet (column + j)) = Inr ((metadata # ms) ! j)"
        using md k(3) by (cases j) auto
    qed
  qed
qed


lemma add_fields_step:
  assumes "complete metadata"
  shows "add_fields table_name ((field_name, metadata) # rest) pk sql_script =
     (if pk_flag metadata \<and> pk \<noteq> PNone then Inl (multiple_pk_error table_name)
      else add_fields table_name rest (if pk_flag metadata then field_name else pk)
             (sql_script @ column_line (if pk_flag metadata then field_name else pk) field_name metadata))"
proof -
  from assms obtain kvs p t n where m: "metadata = Dict kvs"
    and kv: "map_of kvs ''pk'' = Some p" "map_of kvs ''type'' = Some t" "map_of kvs ''not_null'' = Some n"
    by (cases metadata) auto
  show ?thesis
    unfolding m
    by (simp add: kv column_line_def get_item_def multiple_pk_error_def Let_def)
qed

lemma add_fields_complete:
  assumes "list_all (\<lambda>p. complete (snd p) \<and> fst p \<noteq> PNone) fms"
  shows "add_fields table_name fms pk sql_script =
     (if (pk \<noteq> PNone \<and> 1 \<le> length (filter (\<lambda>p. pk_flag (snd p)) fms))
          \<or> 2 \<le> length (filter (\<lambda>p. pk_flag (snd p)) fms)
      then Inl (multiple_pk_error table_name)
      else Inr (final_pk fms pk, sql_script @ concat (column_lines fms pk)))"
  using assms
proof (induction fms arbitrary: pk sql_script)
  case Nil
  then show ?case by simp
next
  case (Cons fm fms)
  obtain field_name metadata where fm: "fm = (field_name, metadata)"
    by (cases fm)
  from Cons.prems fm have c: "complete metadata" and n: "field_name \<noteq> PNone"
    and rest: "list_all (\<lambda>p. complete (snd p) \<and> fst p \<noteq> PNone) fms"
    by simp_all
  show ?case
    unfolding fm add_fields_step [OF c] Cons.IH [OF rest]
    using n by (auto simp: Let_def)
qed

lemma final_pk_None:
  assumes "list_all (\<lambda>p. fst p \<noteq> PNone) fms"
  shows "final_pk fms pk = PNone \<longleftrightarrow> pk = PNone \<and> filter (\<lambda>p. pk_flag (snd p)) fms = []"
  using assms by (induction fms pk rule: final_pk.induct) auto

lemma add_fields_Inr:
  assumes "add_fields table_name fms pk sql_script = Inr (pk', sql_script')"
  shows "list_all (\<lambda>p. complete (snd p)) fms \<and> pk' = final_pk fms pk
           \<and> sql_script' = sql_script @ concat (column_lines fms pk)"
  using assms
proof (induction fms arbitrary: pk sql_script)
  case Nil
  then show ?case by simp
next
  case (Cons fm fms)
  obtain field_name metadata where fm: "fm = (field_name, metadata)"
    by (cases fm)
  from Cons.prems have c: "complete metadata"
    unfolding fm
    by (cases metadata) (auto split: option.splits sum.splits if_splits simp: Let_def)
  from Cons.prems [unfolded fm add_fields_step [OF c]]
  have rec: "add_fields table_name fms (if pk_flag metadata then field_name else pk)
             (sql_script @ column_line (if pk_flag metadata then field_name else pk) field_name metadata)
             = Inr (pk', sql_script')"
    by (simp split: if_splits)
  from Cons.IH [OF rec] c show ?case
    unfolding fm by (simp add: Let_def)
qed

lemma row_values_eq:
  "row_values sheet field_names row_index =
     map (\<lambda>j. PStr (cell_text (value_at sheet (row_index + 1) (j + 1)))) [0..<length field_names]"
  by (simp add: row_values_def value_at_def cell_text_def Let_def)

lemma zip_upt_nth: "length xs = n \<Longrightarrow> zip [0..<n] xs = map (\<lambda>i. (i, xs ! i)) [0..<n]"
  by (rule nth_equalityI) simp_all

lemma filter_upt_nonzero: "filter (\<lambda>i. i \<noteq> 0 \<and> Q i) [0..<n] = filter Q [1..<n]"
proof (cases n)
  case 0
  then show ?thesis by simp
next
  case (Suc m)
  have "[0..<Suc m] = 0 # [1..<Suc m]"
    by (simp add: upt_conv_Cons del: upt_Suc)
  moreover have "filter (\<lambda>i. i \<noteq> 0 \<and> Q i) [1..<Suc m] = filter Q [1..<Suc m]"
    by (rule filter_cong) auto
  ultimately show ?thesis
    unfolding Suc by (simp del: upt_Suc)
qed

lemma kept_sheet_row:
  assumes "i < max_row sheet"
  shows "kept (sheet_rows sheet ! i) =
           list_ex (\<lambda>c. truthy (value_at sheet (i + 1) c)) [1..<Suc (max_column sheet)]"
proof -
  have "sheet_rows sheet ! i = map (\<lambda>c. fst (sheet_cell sheet (i + 1) c)) [1..<Suc (max_column sheet)]"
    using assms unfolding sheet_rows_def by (simp del: upt_Suc add: nth_map_upt)
  then show ?thesis
    by (simp add: kept_def value_at_def list_ex_iff del: upt_Suc)
qed

lemma add_records_sheet:
  "add_records sheet table_name field_names 0 (sheet_rows sheet) sql_script =
     sql_script @ concat (map (\<lambda>i. insert_statement table_name (row_values sheet field_names i))
                            (record_rows sheet))"
proof -
  have len: "length (sheet_rows sheet) = max_row sheet"
    by (simp add: sheet_rows_def)
  have "map (\<lambda>(i, row_obj). insert_statement table_name (row_values sheet field_names i))
          (filter (\<lambda>(i, row_obj). i \<noteq> 0 \<and> kept row_obj)
             (zip [0..<0 + length (sheet_rows sheet)] (sheet_rows sheet)))
        = map (\<lambda>i. insert_statement table_name (row_values sheet field_names i))
            (filter (\<lambda>i. i \<noteq> 0 \<and> kept (sheet_rows sheet ! i)) [0..<max_row sheet])"
    by (simp add: zip_upt_nth [OF len] filter_map comp_def len del: upt_Suc)
  also have "filter (\<lambda>i. i \<noteq> 0 \<and> kept (sheet_rows sheet ! i)) [0..<max_row sheet]
             = filter (\<lambda>i. kept (sheet_rows sheet ! i)) [1..<max_row sheet]"
    by (rule filter_upt_nonzero)
  also have "\<dots> = record_rows sheet"
    unfolding record_rows_def by (rule filter_cong) (simp_all add: kept_sheet_row del: upt_Suc)
  finally show ?thesis
    by (simp add: add_records_append)
qed

lemma detect_fields_header:
  assumes "detect_fields loads sheet 1 [] [] = Inr (fns, mds, sheet')"
  shows "length fns = length mds" and "list_all truthy fns"
    and "fns = map (\<lambda>j. value_at sheet 1 (j + 1)) [0..<length mds]"
    and "\<not> truthy (value_at sheet 1 (length mds + 1))"
    and "sheet' = snd (sheet_cell sheet 1 (length mds + 1))"
proof -
  from detect_fields_Inr [OF assms] obtain ms where ms:
    "fns = [] @ map (\<lambda>j. cell_value (header_cell sheet (1 + j))) [0..<length ms]"
    "mds = [] @ ms"
    "\<forall>j<length ms. truthy (cell_value (header_cell sheet (1 + j)))
        \<and> field_metadata_of loads (header_cell sheet (1 + j)) = Inr (ms ! j)"
    "\<not> truthy (cell_value (header_cell sheet (1 + length ms)))"
    "sheet' = snd (sheet_cell sheet 1 (1 + length ms))"
    by blast
  from ms(1,2) show "length fns = length mds" by simp
  from ms(1,2,3) show "list_all truthy fns"
    by (simp add: list_all_iff)
  from ms(1,2) show "fns = map (\<lambda>j. value_at sheet 1 (j + 1)) [0..<length mds]"
    by (simp add: value_at_def header_cell_def)
  from ms(2,4) show "\<not> truthy (value_at sheet 1 (length mds + 1))"
    by (simp add: value_at_def header_cell_def)
  from ms(2,5) show "sheet' = snd (sheet_cell sheet 1 (length mds + 1))"
    by simp
qed

lemma convert_sheet_detected:
  assumes "detect_fields loads sheet 1 [] [] = Inr (fns, mds, sheet')"
  shows \<open>convert_sheet loads sheet sql_script =
     (case add_fields (title sheet) (zip fns mds) PNone
             (sql_script @ ''CREATE TABLE "'' @ title sheet @ ''" (\<newline>'') of
        Inl e \<Rightarrow> Inl e
      | Inr (pk, script2) \<Rightarrow>
          if pk \<noteq> PNone
          then Inr (add_records sheet' (title sheet) fns 0 (sheet_rows sheet')
                      (script2 @ ''  PRIMARY KEY ('' @ py_str pk @ '')\<newline>'' @ '');\<newline>''))
          else Inl (no_pk_error (title sheet)))\<close>
  unfolding convert_sheet_def assms Let_def
  by (simp add: no_pk_error_def split: sum.splits prod.splits)

lemma convert_sheet_Inr:
  assumes "convert_sheet loads sheet sql_script = Inr out"
  shows "\<exists>fns mds sheet'.
           detect_fields loads sheet 1 [] [] = Inr (fns, mds, sheet')
           \<and> list_all complete mds
           \<and> final_pk (zip fns mds) PNone \<noteq> PNone
           \<and> out = sql_script @ create_table (title sheet) fns mds
                   @ concat (map (\<lambda>i. insert_statement (title sheet) (row_values sheet' fns i))
                               (record_rows sheet'))"
proof -
  from assms obtain r where r: "detect_fields loads sheet 1 [] [] = Inr r"
    by (cases "detect_fields loads sheet 1 [] []") (simp_all add: convert_sheet_def)
  obtain fns mds sheet' where "r = (fns, mds, sheet')"
    by (cases r)
  with r have d: "detect_fields loads sheet 1 [] [] = Inr (fns, mds, sheet')"
    by simp
  note cs = assms [unfolded convert_sheet_detected [OF d]]
  from cs have "\<exists>r. add_fields (title sheet) (zip fns mds) PNone
          (sql_script @ ''CREATE TABLE '' @ [CHR 0x22] @ title sheet @ [CHR 0x22] @ '' ('' @ [CHR 0x0A]) = Inr r"
    by (cases "add_fields (title sheet) (zip fns mds) PNone
          (sql_script @ ''CREATE TABLE '' @ [CHR 0x22] @ title sheet @ [CHR 0x22] @ '' ('' @ [CHR 0x0A])") simp_all
  then obtain pk script2 where
    a: "add_fields (title sheet) (zip fns mds) PNone
          (sql_script @ ''CREATE TABLE '' @ [CHR 0x22] @ title sheet @ [CHR 0x22] @ '' ('' @ [CHR 0x0A])
        = Inr (pk, script2)"
    by (metis surj_pair)
  from cs a have pk: "pk \<noteq> PNone"
    and out: "out = add_records sheet' (title sheet) fns 0 (sheet_rows sheet')
                (script2 @ ''  PRIMARY KEY ('' @ py_str pk @ '')'' @ [CHR 0x0A] @ '');'' @ [CHR 0x0A])"
    by (auto split: if_splits)
  from add_fields_Inr [OF a] have c: "list_all (\<lambda>p. complete (snd p)) (zip fns mds)"
    and pk': "pk = final_pk (zip fns mds) PNone"
    and s2: "script2 = (sql_script @ ''CREATE TABLE '' @ [CHR 0x22] @ title sheet @ [CHR 0x22] @ '' ('' @ [CHR 0x0A])
               @ concat (column_lines (zip fns mds) PNone)"
    by simp_all
  from detect_fields_header(1) [OF d] c have "list_all complete mds"
    by (simp add: list_all_length)
  with d pk pk' show ?thesis
    unfolding out add_records_sheet s2
    by (intro exI [of _ fns] exI [of _ mds] exI [of _ sheet']) (simp add: create_table_def)
qed

lemma convert_sheets_append:
  "convert_sheets loads (xs @ ys) sql_script =
     (case convert_sheets loads xs sql_script of
        Inl e \<Rightarrow> Inl e
      | Inr sql_script' \<Rightarrow> convert_sheets loads ys sql_script')"
  by (induction xs arbitrary: sql_script) (simp_all split: sum.splits)

lemma length_filter_zip_snd:
  "length xs = length ys \<Longrightarrow>
     length (filter (\<lambda>p. P (snd p)) (zip xs ys)) = length (filter P ys)"
  by (induction xs ys rule: list_induct2) simp_all

lemma convert_sheet_complete:
  assumes d: "detect_fields loads sheet 1 [] [] = Inr (fns, mds, sheet')"
    and c: "list_all complete mds"
  shows "convert_sheet loads sheet sql_script =
     (if length (filter pk_flag mds) = 0 then Inl (no_pk_error (title sheet))
      else if length (filter pk_flag mds) = 1
      then Inr (sql_script @ create_table (title sheet) fns mds
                 @ concat (map (\<lambda>i. insert_statement (title sheet) (row_values sheet' fns i))
                                (record_rows sheet')))
      else Inl (multiple_pk_error (title sheet)))"
proof -
  note h = detect_fields_header [OF d]
  have names: "list_all (\<lambda>p. fst p \<noteq> PNone) (zip fns mds)"
    using h(1,2) by (auto simp: list_all_length)
  have all: "list_all (\<lambda>p. complete (snd p) \<and> fst p \<noteq> PNone) (zip fns mds)"
    using names c h(1) by (auto simp: list_all_length)
  have n: "length (filter (\<lambda>p. pk_flag (snd p)) (zip fns mds)) = length (filter pk_flag mds)"
    by (rule length_filter_zip_snd [OF h(1)])
  have fin: "final_pk (zip fns mds) PNone = PNone \<longleftrightarrow> length (filter pk_flag mds) = 0"
    using final_pk_None [OF names, of PNone] n
    by (simp add: length_0_conv [symmetric] del: length_0_conv)
  consider "length (filter pk_flag mds) = 0" | "length (filter pk_flag mds) = 1"
    | "2 \<le> length (filter pk_flag mds)"
    by linarith
  then show ?thesis
  proof cases
    case 1
    with fin show ?thesis
      unfolding convert_sheet_detected [OF d] add_fields_complete [OF all] n
      by simp
  next
    case 2
    with fin show ?thesis
      unfolding convert_sheet_detected [OF d] add_fields_complete [OF all] n
      by (simp add: add_records_sheet create_table_def)
  next
    case 3
    then have "filter pk_flag mds \<noteq> []"
      by auto
    with 3 show ?thesis
      unfolding convert_sheet_detected [OF d] add_fields_complete [OF all] n
      by simp
  qed
qed

lemma xlsx_to_sql_sheets:
  assumes "worksheets wb = before @ sheet # rest"
    and "convert_sheets loads before ''BEGIN TRANSACTION;\<newline>'' = Inr sql_script"
  shows "xlsx_to_sql loads wb =
     (case convert_sheet loads sheet sql_script of
        Inl e \<Rightarrow> Inl e
      | Inr sql_script' \<Rightarrow>
          (case convert_sheets loads rest sql_script' of
             Inl e \<Rightarrow> Inl e
           | Inr out \<Rightarrow> Inr (out @ ''COMMIT;\<newline>'')))"
  using assms
  by (simp add: xlsx_to_sql_def convert_sheets_append split: sum.splits)

lemma detect_sheet_no_pk:
  "detect_fields json_loads_sample sheet_no_pk 1 [] [] =
     Inr ([PStr ''body'', PStr ''added''],
          [Dict [(''type'', PStr ''TEXT''), (''not_null'', PBool True), (''pk'', PInt 0)],
           Dict [(''type'', PStr ''VARCHAR(255)''), (''not_null'', PBool False), (''pk'', PInt 0)]],
          sheet_no_pk\<lparr>cells := cells sheet_no_pk @ [((1, 3), empty_cell)]\<rparr>)"
  by code_simp

lemma detect_sheet_two_pk:
  "detect_fields json_loads_sample sheet_two_pk 1 [] [] =
     Inr ([PStr ''a'', PStr ''b''],
          [Dict [(''type'', PStr ''INTEGER''), (''not_null'', PBool False), (''pk'', PInt 1)],
           Dict [(''type'', PStr ''INTEGER''), (''not_null'', PBool False), (''pk'', PInt 1)]],
          sheet_two_pk\<lparr>cells := cells sheet_two_pk @ [((1, 3), empty_cell)]\<rparr>)"
  by code_simp

lemma detect_sheet_people:
  "detect_fields json_loads_sample sheet_people 1 [] [] =
     Inr ([PStr ''id'', PStr ''name''],
          [Dict [(''type'', PStr ''INTEGER''), (''not_null'', PBool False), (''pk'', PInt 1)],
           Dict [(''type'', PStr ''TEXT''), (''not_null'', PBool True), (''pk'', PInt 0)]],
          sheet_people\<lparr>cells := cells sheet_people @ [((1, 3), empty_cell)]\<rparr>)"
  by code_simp



lemma title_probe: "title (snd (sheet_cell sheet r c)) = title sheet"
  by (simp add: sheet_cell_def split: option.splits)

lemma convert_sheet_zero:
  \<open>convert_sheet json_loads_sample sheet_zero [] =
     Inr (''CREATE TABLE "t" (\<newline>'' @ [CHR 0x09] @ ''id INTEGER,\<newline>''
          @ ''  PRIMARY KEY (id)\<newline>);\<newline>''
          @ ''INSERT INTO "t" VALUES('' @ [CHR 0x27] @ ''1'' @ [CHR 0x27] @ '');\<newline>''
          @ ''INSERT INTO "t" VALUES('' @ [CHR 0x27] @ ''2'' @ [CHR 0x27] @ '');\<newline>'')\<close>
  by code_simp

lemma convert_sheets_prefix:
  "convert_sheets loads sheets sql_script = Inr out \<Longrightarrow> \<exists>body. out = sql_script @ body"
proof (induction sheets arbitrary: sql_script)
  case Nil
  then show ?case by simp
next
  case (Cons sheet sheets)
  from Cons.prems obtain mid where m: "convert_sheet loads sheet sql_script = Inr mid"
    and r: "convert_sheets loads sheets mid = Inr out"
    by (auto split: sum.splits)
  from convert_sheet_Inr [OF m] obtain b1 where "mid = sql_script @ b1"
    by blast
  moreover from Cons.IH [OF r] obtain b2 where "out = mid @ b2"
    by blast
  ultimately show ?case
    by simp
qed

lemma xlsx_to_sql_people:
  "xlsx_to_sql json_loads_sample workbook_people = Inr (script_people @ ''COMMIT;\<newline>'')"
  by code_simp

lemma convert_sheet_people:
  "convert_sheet json_loads_sample sheet_people ''BEGIN TRANSACTION;\<newline>'' = Inr script_people"
  by code_simp



section \<open>What the forward mapper writes, and reading it back\<close>

lemma title_set_cell: "title (set_cell ws r c f) = title ws"
  by (simp add: set_cell_def sheet_cell_def split: option.splits)

lemma title_write_header: "title (write_header dumps i cols ws) = title ws"
  by (induction cols arbitrary: i ws) (simp_all add: title_set_cell Let_def)

lemma title_write_row: "title (write_row i j vs ws) = title ws"
  by (induction vs arbitrary: j ws) (simp_all add: title_set_cell)

lemma title_write_rows: "title (write_rows i rows ws) = title ws"
  by (induction rows arbitrary: i ws) (simp_all add: title_write_row)

lemma title_sheet_of: "title (sheet_of dumps db sheet_name table_name) = sheet_name"
  by (simp add: sheet_of_def title_write_rows title_write_header)

lemma length_assigned_titles: "length (assigned_titles create used names) = length names"
  by (induction names arbitrary: used) (simp_all add: Let_def)

lemma add_tables_eq:
  "add_tables create dumps db names (sheets, table_names) =
     (sheets @ map2 (sheet_of dumps db) (assigned_titles create (map title sheets) names) names,
      link_names (zip (assigned_titles create (map title sheets) names) names) table_names)"
proof (induction names arbitrary: sheets table_names)
  case Nil
  then show ?case by simp
next
  case (Cons table_name rest)
  show ?case
    by (simp add: Cons.IH Let_def sheet_of_def title_write_rows title_write_header)
qed

lemma worksheets_sql_to_xlsx:
  "worksheets (sql_to_xlsx create dumps dumps_names db) =
     map2 (sheet_of dumps db) (assigned_titles create [] (select_tables db)) (select_tables db)"
  by (simp add: sql_to_xlsx_def add_tables_eq Let_def)

lemma titles_sql_to_xlsx:
  "map title (worksheets (sql_to_xlsx create dumps dumps_names db)) =
     assigned_titles create [] (select_tables db)"
  unfolding worksheets_sql_to_xlsx
  by (rule nth_equalityI) (simp_all add: length_assigned_titles title_sheet_of)

lemma description_sql_to_xlsx:
  "description (sql_to_xlsx create dumps dumps_names db) =
     Some (AUTOGEN_PREFIX @ dumps_names (forward_names create dumps db))"
  by (simp add: sql_to_xlsx_def forward_names_def Let_def split: prod.splits)

lemma forward_names_eq:
  "forward_names create dumps db =
     link_names (zip (assigned_titles create [] (select_tables db)) (select_tables db)) []"
  by (simp add: forward_names_def add_tables_eq)

lemma assigned_titles_nth:
  "i < length names \<Longrightarrow>
     assigned_titles create used names ! i =
       create (used @ take i (assigned_titles create used names)) (take 29 (names ! i))"
proof (induction names arbitrary: used i)
  case Nil
  then show ?case by simp
next
  case (Cons n names)
  show ?case
  proof (cases i)
    case 0
    then show ?thesis by (simp add: Let_def)
  next
    case (Suc k)
    with Cons.prems have "k < length names" by simp
    from Cons.IH [OF this] Suc show ?thesis
      by (simp add: Let_def)
  qed
qed

lemma link_names_other:
  "k \<notin> fst ` set ps \<Longrightarrow> map_of (link_names ps table_names) k = map_of table_names k"
  by (induction ps arbitrary: table_names) (auto simp: AList.update_conv')

lemma link_names_lookup:
  assumes "i < length ps" and "\<forall>j. i < j \<and> j < length ps \<longrightarrow> fst (ps ! j) \<noteq> fst (ps ! i)"
  shows "map_of (link_names ps table_names) (fst (ps ! i)) = Some (snd (ps ! i))"
  using assms
proof (induction ps arbitrary: i table_names)
  case Nil
  then show ?case by simp
next
  case (Cons p ps)
  obtain k v where p: "p = (k, v)" by (cases p)
  show ?case
  proof (cases i)
    case 0
    have "k \<notin> fst ` set ps"
    proof
      assume "k \<in> fst ` set ps"
      then obtain j where "j < length ps" and "fst (ps ! j) = k"
        by (auto simp: in_set_conv_nth)
      with Cons.prems(2) [rule_format, of "Suc j"] 0 p show False
        by simp
    qed
    from link_names_other [OF this] 0 p show ?thesis
      by (simp add: AList.update_conv')
  next
    case (Suc i')
    with Cons.prems have "i' < length ps"
      and "\<forall>j. i' < j \<and> j < length ps \<longrightarrow> fst (ps ! j) \<noteq> fst (ps ! i')"
      by auto
    from Cons.IH [OF this] Suc p show ?thesis
      by simp
  qed
qed

lemma look_eq: "look ws r c = (case map_of (cells ws) (r, c) of Some x \<Rightarrow> x | None \<Rightarrow> empty_cell)"
  by (simp add: look_def sheet_cell_def split: option.splits)














lemma same_sheet_look:
  assumes "same_sheet a b"
  shows "look a r c = look b r c"
proof (cases "(r, c) \<in> set (map fst (cells a) @ map fst (cells b))")
  case True
  with assms show ?thesis
    unfolding same_sheet_def list_all_iff by fastforce
next
  case False
  then have "map_of (cells a) (r, c) = None" and "map_of (cells b) (r, c) = None"
    by (simp_all add: map_of_eq_None_iff)
  then show ?thesis
    by (simp add: look_eq)
qed

lemma same_sheet_iff:
  "same_sheet a b \<longleftrightarrow> title a = title b \<and> (\<forall>r c. look a r c = look b r c)"
proof
  assume "same_sheet a b"
  then show "title a = title b \<and> (\<forall>r c. look a r c = look b r c)"
    by (simp add: same_sheet_look) (simp add: same_sheet_def)
next
  assume "title a = title b \<and> (\<forall>r c. look a r c = look b r c)"
  then show "same_sheet a b"
    by (simp add: same_sheet_def list_all_iff)
qed

















section \<open>The claims\<close>




text \<open>
  C2, primary-key cardinality: take a sheet that the run reaches (the sheets before it
  were converted) and whose detected fields all carry a complete descriptor. If none
  of the descriptors has a true \<open>pk\<close>, the run ends with the error "no primary key field
  detected"; if more than one has, with "multiple primary key fields detected"; if
  exactly one has, the sheet is converted: its \<open>CREATE TABLE\<close> block and its \<open>INSERT\<close>
  statements are appended to the script.
\<close>

theorem primary_key_cardinality:
  assumes "worksheets wb = before @ sheet # rest"
    and "convert_sheets loads before ''BEGIN TRANSACTION;\<newline>'' = Inr sql_script"
    and "detect_fields loads sheet 1 [] [] = Inr (field_names, field_metadata, sheet')"
    and "list_all complete field_metadata"
  shows "(length (filter pk_flag field_metadata) = 0 \<longrightarrow>
            xlsx_to_sql loads wb =
              Inl (XLSXParseError (''Table '' @ title sheet @ '': no primary key field detected!'')))
       \<and> (1 < length (filter pk_flag field_metadata) \<longrightarrow>
            xlsx_to_sql loads wb =
              Inl (XLSXParseError
                     (''Table '' @ title sheet @ '': multiple primary key fields detected!'')))
       \<and> (length (filter pk_flag field_metadata) = 1 \<longrightarrow>
            convert_sheet loads sheet sql_script =
              Inr (sql_script @ create_table (title sheet) field_names field_metadata
                   @ concat (map (\<lambda>i. insert_statement (title sheet) (row_values sheet' field_names i))
                               (record_rows sheet'))))"
  unfolding xlsx_to_sql_sheets [OF assms(1,2)] convert_sheet_complete [OF assms(3,4)]
  by (simp add: no_pk_error_def multiple_pk_error_def)

theorem primary_key_cardinality_witness:
  \<open>xlsx_to_sql json_loads_sample \<lparr>worksheets = [sheet_no_pk], description = None, creator = None\<rparr>
     = Inl (XLSXParseError ''Table notes: no primary key field detected!'')
   \<and> xlsx_to_sql json_loads_sample \<lparr>worksheets = [sheet_two_pk], description = None, creator = None\<rparr>
     = Inl (XLSXParseError ''Table pairs: multiple primary key fields detected!'')
   \<and> convert_sheet json_loads_sample sheet_people ''BEGIN TRANSACTION;\<newline>''
     = Inr (''BEGIN TRANSACTION;\<newline>CREATE TABLE "people" (\<newline>''
            @ [CHR 0x09] @ ''id INTEGER,\<newline>''
            @ [CHR 0x09] @ ''"name" TEXT NOT NULL,\<newline>''
            @ ''  PRIMARY KEY (id)\<newline>);\<newline>''
            @ ''INSERT INTO "people" VALUES('' @ [CHR 0x27] @ ''7'' @ [CHR 0x27] @ '',''
                @ [CHR 0x27] @ ''Ann'' @ [CHR 0x27] @ '');\<newline>''
            @ ''INSERT INTO "people" VALUES('' @ [CHR 0x27] @ ''8'' @ [CHR 0x27] @ '',''
                @ [CHR 0x27] @ [CHR 0x27] @ '');\<newline>'')\<close>
proof -
  have start: "convert_sheets json_loads_sample [] ''BEGIN TRANSACTION;\<newline>''
                 = Inr ''BEGIN TRANSACTION;\<newline>''"
    by simp
  have wb: "\<And>sheet. worksheets \<lparr>worksheets = [sheet], description = None, creator = None\<rparr>
                 = [] @ sheet # []"
    by simp
  have c1: "list_all complete
      [Dict [(''type'', PStr ''TEXT''), (''not_null'', PBool True), (''pk'', PInt 0)],
       Dict [(''type'', PStr ''VARCHAR(255)''), (''not_null'', PBool False), (''pk'', PInt 0)]]"
    by simp
  have c2: "list_all complete
      [Dict [(''type'', PStr ''INTEGER''), (''not_null'', PBool False), (''pk'', PInt 1)],
       Dict [(''type'', PStr ''INTEGER''), (''not_null'', PBool False), (''pk'', PInt 1)]]"
    by simp
  have c3: "list_all complete
      [Dict [(''type'', PStr ''INTEGER''), (''not_null'', PBool False), (''pk'', PInt 1)],
       Dict [(''type'', PStr ''TEXT''), (''not_null'', PBool True), (''pk'', PInt 0)]]"
    by simp
  have a: "xlsx_to_sql json_loads_sample
             \<lparr>worksheets = [sheet_no_pk], description = None, creator = None\<rparr>
           = Inl (XLSXParseError ''Table notes: no primary key field detected!'')"
    using primary_key_cardinality [OF wb start detect_sheet_no_pk c1]
    by (simp add: sheet_no_pk_def)
  have b: "xlsx_to_sql json_loads_sample
             \<lparr>worksheets = [sheet_two_pk], description = None, creator = None\<rparr>
           = Inl (XLSXParseError ''Table pairs: multiple primary key fields detected!'')"
    using primary_key_cardinality [OF wb start detect_sheet_two_pk c2]
    by (simp add: sheet_two_pk_def)
  have v: \<open>''BEGIN TRANSACTION;\<newline>''
            @ create_table (title sheet_people) [PStr ''id'', PStr ''name'']
                [Dict [(''type'', PStr ''INTEGER''), (''not_null'', PBool False), (''pk'', PInt 1)],
                 Dict [(''type'', PStr ''TEXT''), (''not_null'', PBool True), (''pk'', PInt 0)]]
            @ concat (map (\<lambda>i. insert_statement (title sheet_people)
                        (row_values (sheet_people\<lparr>cells := cells sheet_people @ [((1, 3), empty_cell)]\<rparr>)
                           [PStr ''id'', PStr ''name''] i))
                 (record_rows (sheet_people\<lparr>cells := cells sheet_people @ [((1, 3), empty_cell)]\<rparr>)))
          = ''BEGIN TRANSACTION;\<newline>CREATE TABLE "people" (\<newline>''
            @ [CHR 0x09] @ ''id INTEGER,\<newline>''
            @ [CHR 0x09] @ ''"name" TEXT NOT NULL,\<newline>''
            @ ''  PRIMARY KEY (id)\<newline>);\<newline>''
            @ ''INSERT INTO "people" VALUES('' @ [CHR 0x27] @ ''7'' @ [CHR 0x27] @ '',''
                @ [CHR 0x27] @ ''Ann'' @ [CHR 0x27] @ '');\<newline>''
            @ ''INSERT INTO "people" VALUES('' @ [CHR 0x27] @ ''8'' @ [CHR 0x27] @ '',''
                @ [CHR 0x27] @ [CHR 0x27] @ '');\<newline>''\<close>
    by code_simp
  have c: \<open>convert_sheet json_loads_sample sheet_people ''BEGIN TRANSACTION;\<newline>''
     = Inr (''BEGIN TRANSACTION;\<newline>CREATE TABLE "people" (\<newline>''
            @ [CHR 0x09] @ ''id INTEGER,\<newline>''
            @ [CHR 0x09] @ ''"name" TEXT NOT NULL,\<newline>''
            @ ''  PRIMARY KEY (id)\<newline>);\<newline>''
            @ ''INSERT INTO "people" VALUES('' @ [CHR 0x27] @ ''7'' @ [CHR 0x27] @ '',''
                @ [CHR 0x27] @ ''Ann'' @ [CHR 0x27] @ '');\<newline>''
            @ ''INSERT INTO "people" VALUES('' @ [CHR 0x27] @ ''8'' @ [CHR 0x27] @ '',''
                @ [CHR 0x27] @ [CHR 0x27] @ '');\<newline>'')\<close>
    using primary_key_cardinality [OF wb start detect_sheet_people c3, THEN conjunct2, THEN conjunct2]
    unfolding v [symmetric] by simp
  from a b c show ?thesis
    by (intro conjI)
qed

text \<open>
  C3, blank rows: the claim fails on the code. A sheet with the rows 1, 0 and 2 under
  the header \<open>id\<close> gets two \<open>INSERT\<close> statements: the row whose only cell holds the
  number 0 is skipped like a blank one, because \<open>any(cell.value for cell in row_obj)\<close>
  tests the truth value of a cell and not whether it is empty.
\<close>

theorem zero_row_is_dropped:
  \<open>xlsx_to_sql json_loads_sample \<lparr>worksheets = [sheet_zero], description = None, creator = None\<rparr> =
     Inr (''BEGIN TRANSACTION;\<newline>CREATE TABLE "t" (\<newline>''
          @ [CHR 0x09] @ ''id INTEGER,\<newline>''
          @ ''  PRIMARY KEY (id)\<newline>);\<newline>''
          @ ''INSERT INTO "t" VALUES('' @ [CHR 0x27] @ ''1'' @ [CHR 0x27] @ '');\<newline>''
          @ ''INSERT INTO "t" VALUES('' @ [CHR 0x27] @ ''2'' @ [CHR 0x27] @ '');\<newline>''
          @ ''COMMIT;\<newline>'')\<close>
  by code_simp

text \<open>
  C4, table enumeration, as amended: the forward mapper creates one sheet for every
  row of \<open>sqlite_master\<close> whose type is \<open>table\<close>, in the order of the catalog: the
  titles are those assigned one after the other to the first 29 characters of the
  names, and each sheet is the one written for its table. Rows of another type
  (indexes, views, triggers) get no sheet; no table is left out for its name.
\<close>

theorem table_enumeration:
  "map title (worksheets (sql_to_xlsx create_sheet_title dumps dumps_names db)) =
     assigned_titles create_sheet_title []
       (map row_name (filter (\<lambda>r. row_type r = ''table'') (sqlite_master db)))
   \<and> worksheets (sql_to_xlsx create_sheet_title dumps dumps_names db) =
       map2 (sheet_of dumps db)
         (assigned_titles create_sheet_title []
            (map row_name (filter (\<lambda>r. row_type r = ''table'') (sqlite_master db))))
         (map row_name (filter (\<lambda>r. row_type r = ''table'') (sqlite_master db)))
   \<and> length (worksheets (sql_to_xlsx create_sheet_title dumps dumps_names db)) =
       length (filter (\<lambda>r. row_type r = ''table'') (sqlite_master db))"
  using titles_sql_to_xlsx [of create_sheet_title dumps dumps_names db]
    worksheets_sql_to_xlsx [of create_sheet_title dumps dumps_names db]
  by (simp add: select_tables_def length_assigned_titles)

text \<open>
  C4 as stated fails: a script that uses \<open>AUTOINCREMENT\<close> leaves the engine's own table
  \<open>sqlite_sequence\<close> in the catalog, with the type \<open>table\<close>, and it gets a sheet.
\<close>

theorem table_enumeration_counterexample:
  "map title (worksheets (sql_to_xlsx title_sample json_dumps_sample json_dumps_names_sample
      db_autoincrement)) = [''t'', ''sqlite_sequence'']
   \<and> internal_table ''sqlite_sequence''"
  by (simp add: titles_sql_to_xlsx select_tables_def db_autoincrement_def title_sample_def
      internal_table_def Let_def)

text \<open>
  C5, as amended: for a header cell that carries a comment, decoding compares the
  first \<open>len(COMMENT_PREFIX)\<close> characters with the prefix and raises \<open>XLSXParseError\<close>,
  with the raw comment text in the message, when they differ. When they agree, a
  remainder that is not JSON ends the run with the library's \<open>JSONDecodeError\<close>, and
  any JSON value is accepted as the descriptor. A descriptor that is not a dictionary,
  or that lacks a key, fails only when the loop over the fields reaches it: with \<open>TypeError\<close>
  when it is not a dictionary, with \<open>KeyError\<close> for \<open>pk\<close> when it lacks \<open>pk\<close>; when it
  has a true \<open>pk\<close> and a primary key was found before it, with the \<open>XLSXParseError\<close> for
  multiple primary keys, whatever else it lacks; otherwise with \<open>KeyError\<close> for \<open>type\<close>
  when it lacks \<open>type\<close>, and with \<open>KeyError\<close> for \<open>not_null\<close> when it has \<open>type\<close> and
  lacks \<open>not_null\<close>. No list of fields with such a descriptor is written to the end.
\<close>

theorem metadata_decode_errors:
  "field_metadata_of loads (c\<lparr>comment := Some s\<rparr>) =
     (if take (length COMMENT_PREFIX) s \<noteq> COMMENT_PREFIX
      then Inl (XLSXParseError (''Comment verification failed: '' @ [CHR 0x27] @ s @ [CHR 0x27]))
      else case loads (drop (length COMMENT_PREFIX) s) of
             None \<Rightarrow> Inl JSONDecodeError
           | Some metadata \<Rightarrow> Inr metadata)
   \<and> (add_fields table_name ((field_name, NonDict) # rest) pk sql_script = Inl TypeError)
   \<and> (map_of kvs ''pk'' = None \<longrightarrow>
        add_fields table_name ((field_name, Dict kvs) # rest) pk sql_script = Inl (KeyError ''pk''))
   \<and> (map_of kvs ''pk'' = Some p \<and> truthy p \<and> pk \<noteq> PNone \<longrightarrow>
        add_fields table_name ((field_name, Dict kvs) # rest) pk sql_script =
          Inl (XLSXParseError (''Table '' @ table_name @ '': multiple primary key fields detected!'')))
   \<and> (map_of kvs ''pk'' = Some p \<and> \<not> (truthy p \<and> pk \<noteq> PNone) \<and> map_of kvs ''type'' = None \<longrightarrow>
        add_fields table_name ((field_name, Dict kvs) # rest) pk sql_script = Inl (KeyError ''type''))
   \<and> (map_of kvs ''pk'' = Some p \<and> \<not> (truthy p \<and> pk \<noteq> PNone) \<and> map_of kvs ''type'' = Some ty
        \<and> map_of kvs ''not_null'' = None \<longrightarrow>
        add_fields table_name ((field_name, Dict kvs) # rest) pk sql_script = Inl (KeyError ''not_null''))
   \<and> (add_fields table_name fms pk sql_script = Inr r \<longrightarrow> list_all (\<lambda>p. complete (snd p)) fms)"
proof (intro conjI impI)
  show "field_metadata_of loads (c\<lparr>comment := Some s\<rparr>) =
     (if take (length COMMENT_PREFIX) s \<noteq> COMMENT_PREFIX
      then Inl (XLSXParseError (''Comment verification failed: '' @ [CHR 0x27] @ s @ [CHR 0x27]))
      else case loads (drop (length COMMENT_PREFIX) s) of
             None \<Rightarrow> Inl JSONDecodeError
           | Some metadata \<Rightarrow> Inr metadata)"
    by (simp add: field_metadata_of_def Let_def)
  show "add_fields table_name ((field_name, NonDict) # rest) pk sql_script = Inl TypeError"
    by simp
  show "add_fields table_name ((field_name, Dict kvs) # rest) pk sql_script = Inl (KeyError ''pk'')"
    if "map_of kvs ''pk'' = None"
    using that by simp
  show "add_fields table_name ((field_name, Dict kvs) # rest) pk sql_script =
          Inl (XLSXParseError (''Table '' @ table_name @ '': multiple primary key fields detected!''))"
    if "map_of kvs ''pk'' = Some p \<and> truthy p \<and> pk \<noteq> PNone"
    using that by simp
  show "add_fields table_name ((field_name, Dict kvs) # rest) pk sql_script = Inl (KeyError ''type'')"
    if "map_of kvs ''pk'' = Some p \<and> \<not> (truthy p \<and> pk \<noteq> PNone) \<and> map_of kvs ''type'' = None"
    using that by (auto simp: Let_def)
  show "add_fields table_name ((field_name, Dict kvs) # rest) pk sql_script = Inl (KeyError ''not_null'')"
    if "map_of kvs ''pk'' = Some p \<and> \<not> (truthy p \<and> pk \<noteq> PNone) \<and> map_of kvs ''type'' = Some ty
        \<and> map_of kvs ''not_null'' = None"
    using that by (auto simp: Let_def)
  show "list_all (\<lambda>p. complete (snd p)) fms" if "add_fields table_name fms pk sql_script = Inr r"
    using add_fields_Inr [of table_name fms pk sql_script "fst r" "snd r"] that by simp
qed

theorem metadata_decode_errors_witness:
  "add_fields ''t'' [(PStr ''id'', Dict [])] PNone [] = Inl (KeyError ''pk'')
   \<and> add_fields ''t'' [(PStr ''b'', Dict [(''pk'', PInt 1)])] (PStr ''a'') [] =
       Inl (XLSXParseError (''Table '' @ ''t'' @ '': multiple primary key fields detected!''))
   \<and> add_fields ''t'' [(PStr ''id'', Dict [(''pk'', PInt 1)])] PNone [] = Inl (KeyError ''type'')
   \<and> add_fields ''t'' [(PStr ''id'', Dict [(''pk'', PInt 1), (''type'', PStr ''INTEGER'')])] PNone []
       = Inl (KeyError ''not_null'')
   \<and> list_all (\<lambda>p. complete (snd p))
        [(PStr ''id'', Dict [(''type'', PStr ''INTEGER''), (''not_null'', PBool False), (''pk'', PInt 1)])]"
proof -
  note t = metadata_decode_errors [where table_name = "''t''" and rest = "[]" and sql_script = "[]"
      and fms = "[(PStr ''id'',
                   Dict [(''type'', PStr ''INTEGER''), (''not_null'', PBool False), (''pk'', PInt 1)])]"
      and r = "(PStr ''id'', [CHR 0x09] @ ''id INTEGER,'' @ [CHR 0x0A])"]
  have none: "map_of ([] :: (string \<times> pyval) list) ''pk'' = None"
    by simp
  have second: "map_of [(''pk'', PInt 1)] ''pk'' = Some (PInt 1) \<and> truthy (PInt 1) \<and> PStr ''a'' \<noteq> PNone"
    by simp
  have no_type: "map_of [(''pk'', PInt 1)] ''pk'' = Some (PInt 1) \<and> \<not> (truthy (PInt 1) \<and> PNone \<noteq> PNone)
      \<and> map_of [(''pk'', PInt 1)] ''type'' = None"
    by simp
  have no_flag: "map_of [(''pk'', PInt 1), (''type'', PStr ''INTEGER'')] ''pk'' = Some (PInt 1)
      \<and> \<not> (truthy (PInt 1) \<and> PNone \<noteq> PNone)
      \<and> map_of [(''pk'', PInt 1), (''type'', PStr ''INTEGER'')] ''type'' = Some (PStr ''INTEGER'')
      \<and> map_of [(''pk'', PInt 1), (''type'', PStr ''INTEGER'')] ''not_null'' = None"
    by simp
  have ok: "add_fields ''t''
      [(PStr ''id'', Dict [(''type'', PStr ''INTEGER''), (''not_null'', PBool False), (''pk'', PInt 1)])]
      PNone [] = Inr (PStr ''id'', [CHR 0x09] @ ''id INTEGER,'' @ [CHR 0x0A])"
    by simp
  note c3 = conjunct2 [THEN conjunct2, THEN conjunct1, THEN mp]
  note c4 = conjunct2 [THEN conjunct2, THEN conjunct2, THEN conjunct1, THEN mp]
  note c5 = conjunct2 [THEN conjunct2, THEN conjunct2, THEN conjunct2, THEN conjunct1, THEN mp]
  note c6 = conjunct2 [THEN conjunct2, THEN conjunct2, THEN conjunct2, THEN conjunct2, THEN conjunct1,
      THEN mp]
  note c7 = conjunct2 [THEN conjunct2, THEN conjunct2, THEN conjunct2, THEN conjunct2, THEN conjunct2,
      THEN mp]
  have 1: "add_fields ''t'' [(PStr ''id'', Dict [])] PNone [] = Inl (KeyError ''pk'')"
    using t [where kvs = "[]" and field_name = "PStr ''id''" and pk = PNone, THEN c3, OF none] .
  have 2: "add_fields ''t'' [(PStr ''b'', Dict [(''pk'', PInt 1)])] (PStr ''a'') [] =
       Inl (XLSXParseError (''Table '' @ ''t'' @ '': multiple primary key fields detected!''))"
    using t [where kvs = "[(''pk'', PInt 1)]" and field_name = "PStr ''b''" and pk = "PStr ''a''"
        and p = "PInt 1", THEN c4, OF second] .
  have 3: "add_fields ''t'' [(PStr ''id'', Dict [(''pk'', PInt 1)])] PNone [] = Inl (KeyError ''type'')"
    using t [where kvs = "[(''pk'', PInt 1)]" and field_name = "PStr ''id''" and pk = PNone
        and p = "PInt 1", THEN c5, OF no_type] .
  have 4: "add_fields ''t'' [(PStr ''id'', Dict [(''pk'', PInt 1), (''type'', PStr ''INTEGER'')])] PNone []
       = Inl (KeyError ''not_null'')"
    using t [where kvs = "[(''pk'', PInt 1), (''type'', PStr ''INTEGER'')]" and field_name = "PStr ''id''"
        and pk = PNone and p = "PInt 1" and ty = "PStr ''INTEGER''", THEN c6, OF no_flag] .
  have 5: "list_all (\<lambda>p. complete (snd p))
        [(PStr ''id'', Dict [(''type'', PStr ''INTEGER''), (''not_null'', PBool False), (''pk'', PInt 1)])]"
    using t [where pk = PNone, THEN c7, OF ok] .
  from 1 2 3 4 5 show ?thesis
    by (intro conjI)
qed

text \<open>
  C5 as stated fails: the comment \<open>PREFIX + "{}"\<close> lacks every key and is decoded
  without an error, and the comment \<open>PREFIX + "{"\<close> raises \<open>JSONDecodeError\<close>, not the
  mapper's own error.
\<close>

theorem metadata_decode_counterexample:
  "field_metadata_of json_loads_sample
     \<lparr>cell_value = PStr ''id'', comment = Some (COMMENT_PREFIX @ ''{}'')\<rparr> = Inr (Dict [])
   \<and> field_metadata_of json_loads_sample
     \<lparr>cell_value = PStr ''id'', comment = Some (COMMENT_PREFIX @ ''{'')\<rparr> = Inl JSONDecodeError"
  by (simp add: field_metadata_of_def json_loads_sample_def COMMENT_PREFIX_def)

text \<open>
  C6, sheet names: for the \<open>i\<close>-th enumerated table the title of its sheet is what
  \<open>create_sheet\<close> answers, given the titles of the sheets before it, to the request for
  the first 29 characters of the table name. The description of the workbook is the
  prefix followed by the encoded dictionary \<open>table_names\<close>, and that dictionary maps
  the title to the table name (unless a later sheet was given the same title). For a
  name of 35 characters whose request is granted as it is, the title is the first 29
  characters of the name.
\<close>

theorem sheet_name_truncation:
  assumes "tables = select_tables db"
    and "titles = map title (worksheets (sql_to_xlsx create_sheet_title dumps dumps_names db))"
    and "i < length tables"
  shows "titles ! i = create_sheet_title (take i titles) (take 29 (tables ! i))
       \<and> description (sql_to_xlsx create_sheet_title dumps dumps_names db) =
           Some (AUTOGEN_PREFIX @ dumps_names (forward_names create_sheet_title dumps db))
       \<and> (titles ! i \<notin> set (drop (Suc i) titles) \<longrightarrow>
            map_of (forward_names create_sheet_title dumps db) (titles ! i) = Some (tables ! i))
       \<and> (length (tables ! i) = 35
            \<and> create_sheet_title (take i titles) (take 29 (tables ! i)) = take 29 (tables ! i) \<longrightarrow>
            titles ! i = take 29 (tables ! i) \<and> length (titles ! i) = 29)"
proof -
  have t: "titles = assigned_titles create_sheet_title [] tables"
    using assms(1,2) by (simp add: titles_sql_to_xlsx)
  have len: "length titles = length tables"
    by (simp add: t length_assigned_titles)
  have nth: "titles ! i = create_sheet_title (take i titles) (take 29 (tables ! i))"
    unfolding t using assigned_titles_nth [OF assms(3), of create_sheet_title "[]"] by simp
  have link: "map_of (forward_names create_sheet_title dumps db) (titles ! i) = Some (tables ! i)"
    if "titles ! i \<notin> set (drop (Suc i) titles)"
  proof -
    have "\<forall>j. i < j \<and> j < length (zip titles tables) \<longrightarrow>
            fst (zip titles tables ! j) \<noteq> fst (zip titles tables ! i)"
    proof (intro allI impI)
      fix j assume j: "i < j \<and> j < length (zip titles tables)"
      then have "titles ! j \<in> set (drop (Suc i) titles)"
        using len by (auto simp: in_set_conv_nth intro!: exI [of _ "j - Suc i"])
      with that j assms(3) len show "fst (zip titles tables ! j) \<noteq> fst (zip titles tables ! i)"
        by auto
    qed
    from link_names_lookup [OF _ this, of "[]"] assms(3) len show ?thesis
      unfolding forward_names_eq assms(1) [symmetric] t [symmetric] by simp
  qed
  from nth link show ?thesis
    by (auto simp: description_sql_to_xlsx)
qed

theorem sheet_name_truncation_witness:
  \<open>map title (worksheets (sql_to_xlsx title_sample json_dumps_sample json_dumps_names_sample
       db_long_name)) ! 0 = ''customer_order_line_item_adju''
   \<and> length (map title (worksheets (sql_to_xlsx title_sample json_dumps_sample
       json_dumps_names_sample db_long_name)) ! 0) = 29
   \<and> map_of (forward_names title_sample json_dumps_sample db_long_name)
        ''customer_order_line_item_adju'' = Some ''customer_order_line_item_adjustment''
   \<and> description (sql_to_xlsx title_sample json_dumps_sample json_dumps_names_sample db_long_name)
       = Some (''AUTOGENERATED, DO NOT EDIT!\<newline>''
               @ ''{"table_names": {"customer_order_line_item_adju": ''
               @ ''"customer_order_line_item_adjustment"}}'')\<close>
proof -
  let ?wb = "sql_to_xlsx title_sample json_dumps_sample json_dumps_names_sample db_long_name"
  have tables: "[''customer_order_line_item_adjustment''] = select_tables db_long_name"
    by (simp add: select_tables_def db_long_name_def)
  have i: "0 < length [''customer_order_line_item_adjustment'']"
    by simp
  note t = sheet_name_truncation [OF tables refl i, of title_sample json_dumps_sample
      json_dumps_names_sample]
  have first: "map title (worksheets ?wb) ! 0 = ''customer_order_line_item_adju''"
    using t [THEN conjunct1] by (simp add: title_sample_def)
  have unique: "map title (worksheets ?wb) ! 0 \<notin> set (drop (Suc 0) (map title (worksheets ?wb)))"
    by (simp add: titles_sql_to_xlsx tables [symmetric] Let_def)
  have kept: "length ([''customer_order_line_item_adjustment''] ! 0) = 35
      \<and> title_sample (take 0 (map title (worksheets ?wb)))
          (take 29 ([''customer_order_line_item_adjustment''] ! 0))
        = take 29 ([''customer_order_line_item_adjustment''] ! 0)"
    by (simp add: title_sample_def)
  have d: "forward_names title_sample json_dumps_sample db_long_name
             = [(''customer_order_line_item_adju'', ''customer_order_line_item_adjustment'')]"
    by (simp add: forward_names_eq tables [symmetric] Let_def title_sample_def)
  have len: "length (map title (worksheets ?wb) ! 0) = 29"
    using t [THEN conjunct2, THEN conjunct2, THEN conjunct2, rule_format, OF kept]
    by (rule conjunct2)
  have link: "map_of (forward_names title_sample json_dumps_sample db_long_name)
        ''customer_order_line_item_adju'' = Some ''customer_order_line_item_adjustment''"
    using t [THEN conjunct2, THEN conjunct2, THEN conjunct1, rule_format, OF unique]
    by (simp only: first nth_Cons_0)
  have doc: \<open>description ?wb
       = Some (''AUTOGENERATED, DO NOT EDIT!\<newline>''
               @ ''{"table_names": {"customer_order_line_item_adju": ''
               @ ''"customer_order_line_item_adjustment"}}'')\<close>
    unfolding t [THEN conjunct2, THEN conjunct1] d
    by (simp add: AUTOGEN_PREFIX_def json_dumps_names_sample_def)
  from first len link doc show ?thesis
    by (intro conjI)
qed

text \<open>
  C7, default descriptor: a header cell that carries no comment decodes, whatever
  \<open>json.loads\<close> does, without an error to the descriptor
  \<open>{"type": "VARCHAR(255)", "not_null": False, "pk": 0}\<close>.
\<close>

theorem default_descriptor:
  "field_metadata_of loads (c\<lparr>comment := None\<rparr>) =
     Inr (Dict [(''type'', PStr ''VARCHAR(255)''), (''not_null'', PBool False), (''pk'', PInt 0)])"
  by (simp add: field_metadata_of_def DEFAULT_METADATA_def)

text \<open>
  C8, values and wrapping: each \<open>INSERT\<close> statement lists, for the columns of the
  detected fields, the text of the cell between single quotes, whatever the type of
  the value; the text is \<open>str\<close> of the value, put in as it is (no character is escaped),
  and the empty string for a cell without a value. A script that is produced starts
  with \<open>BEGIN TRANSACTION;\<close> and ends with \<open>COMMIT;\<close>, each on a line of its own.
\<close>

theorem value_serialization:
  \<open>add_records sheet table_name field_names 0 (sheet_rows sheet) sql_script =
     sql_script
     @ concat (map (\<lambda>i. ''INSERT INTO "'' @ table_name @ ''" VALUES(''
                       @ comma_separated
                           (map (\<lambda>j. [CHR 0x27] @ cell_text (value_at sheet (i + 1) (j + 1))
                                       @ [CHR 0x27])
                              [0..<length field_names])
                       @ '');\<newline>'')
                 (record_rows sheet))
   \<and> cell_text PNone = [] \<and> cell_text (PStr s) = s \<and> cell_text (PInt n) = str_int n
   \<and> cell_text (PBool b) = (if b then ''True'' else ''False'')
   \<and> (xlsx_to_sql loads wb = Inr out \<longrightarrow>
        (\<exists>body. out = ''BEGIN TRANSACTION;\<newline>'' @ body @ ''COMMIT;\<newline>''))\<close>
proof (intro conjI impI)
  show \<open>add_records sheet table_name field_names 0 (sheet_rows sheet) sql_script =
     sql_script
     @ concat (map (\<lambda>i. ''INSERT INTO "'' @ table_name @ ''" VALUES(''
                       @ comma_separated
                           (map (\<lambda>j. [CHR 0x27] @ cell_text (value_at sheet (i + 1) (j + 1))
                                       @ [CHR 0x27])
                              [0..<length field_names])
                       @ '');\<newline>'')
                 (record_rows sheet))\<close>
    unfolding add_records_sheet insert_statement_def row_values_eq
    by (simp add: comp_def render_value_def)
  show "\<exists>body. out = ''BEGIN TRANSACTION;\<newline>'' @ body @ ''COMMIT;\<newline>''"
    if "xlsx_to_sql loads wb = Inr out"
  proof -
    from that obtain mid where
      m: "convert_sheets loads (worksheets wb) ''BEGIN TRANSACTION;\<newline>'' = Inr mid"
      and out: "out = mid @ ''COMMIT;\<newline>''"
      by (auto simp: xlsx_to_sql_def split: sum.splits)
    from convert_sheets_prefix [OF m] out show ?thesis
      by auto
  qed
qed (simp_all add: cell_text_def)

theorem value_serialization_witness:
  "\<exists>body. script_people @ ''COMMIT;\<newline>''
           = ''BEGIN TRANSACTION;\<newline>'' @ body @ ''COMMIT;\<newline>''"
  using value_serialization [THEN conjunct2, THEN conjunct2, THEN conjunct2, THEN conjunct2,
      THEN conjunct2, rule_format, OF xlsx_to_sql_people] .

text \<open>
  C9, the sheet title is the table name: the script does not depend on the workbook's
  description, and the \<open>CREATE TABLE\<close> block and every \<open>INSERT\<close> statement of a sheet
  name the table by the sheet's title, as it is.
\<close>

theorem title_is_table_name:
  \<open>xlsx_to_sql loads (wb\<lparr>description := d\<rparr>) = xlsx_to_sql loads wb
   \<and> (convert_sheet loads sheet sql_script = Inr out \<longrightarrow>
        (\<exists>field_names field_metadata sheet'.
           out = sql_script
             @ ''CREATE TABLE "'' @ title sheet @ ''" (\<newline>''
             @ concat (column_lines (zip field_names field_metadata) PNone)
             @ ''  PRIMARY KEY (''
             @ py_str (final_pk (zip field_names field_metadata) PNone) @ '')\<newline>);\<newline>''
             @ concat (map (\<lambda>i. ''INSERT INTO "'' @ title sheet @ ''" VALUES(''
                               @ comma_separated (map render_value (row_values sheet' field_names i))
                               @ '');\<newline>'')
                         (record_rows sheet'))))\<close>
proof (intro conjI impI)
  show "xlsx_to_sql loads (wb\<lparr>description := d\<rparr>) = xlsx_to_sql loads wb"
    by (simp add: xlsx_to_sql_def)
  assume "convert_sheet loads sheet sql_script = Inr out"
  from convert_sheet_Inr [OF this] obtain fns mds sheet' where
    "out = sql_script @ create_table (title sheet) fns mds
             @ concat (map (\<lambda>i. insert_statement (title sheet) (row_values sheet' fns i))
                         (record_rows sheet'))"
    by blast
  then show \<open>\<exists>field_names field_metadata sheet'.
           out = sql_script
             @ ''CREATE TABLE "'' @ title sheet @ ''" (\<newline>''
             @ concat (column_lines (zip field_names field_metadata) PNone)
             @ ''  PRIMARY KEY (''
             @ py_str (final_pk (zip field_names field_metadata) PNone) @ '')\<newline>);\<newline>''
             @ concat (map (\<lambda>i. ''INSERT INTO "'' @ title sheet @ ''" VALUES(''
                               @ comma_separated (map render_value (row_values sheet' field_names i))
                               @ '');\<newline>'')
                         (record_rows sheet'))\<close>
    unfolding create_table_def insert_statement_def
    by (intro exI [of _ fns] exI [of _ mds] exI [of _ sheet']) simp
qed

theorem title_is_table_name_witness:
  \<open>\<exists>field_names field_metadata sheet'.
      script_people = ''BEGIN TRANSACTION;\<newline>''
        @ ''CREATE TABLE "'' @ ''people'' @ ''" (\<newline>''
        @ concat (column_lines (zip field_names field_metadata) PNone)
        @ ''  PRIMARY KEY (''
        @ py_str (final_pk (zip field_names field_metadata) PNone) @ '')\<newline>);\<newline>''
        @ concat (map (\<lambda>i. ''INSERT INTO "'' @ ''people'' @ ''" VALUES(''
                          @ comma_separated (map render_value (row_values sheet' field_names i))
                          @ '');\<newline>'')
                    (record_rows sheet'))\<close>
proof -
  have t: "title sheet_people = ''people''"
    by (simp add: sheet_people_def)
  show ?thesis
    using title_is_table_name [THEN conjunct2, rule_format, OF convert_sheet_people]
    unfolding t .
qed




end
